theory Spec2Isabelle
  imports
    Main
    "HOL-Library.Char_ord"
    "HOL-Library.List_Lexorder"
    "HOL-Library.AList"
    "HOL-Library.Multiset"
begin

section \<open>The syntax tree\<close>

text \<open>
  The translator of \<^verbatim>\<open>kugelblitz/translator/__init__.py\<close> walks a tree of Python
  \<^verbatim>\<open>ast\<close> nodes. Python is dynamically typed: any field of a node may hold any node,
  and the dispatcher looks at the class of what it finds. The model keeps that: one type
  \<open>node\<close>, one constructor per node class the source names, each with the fields the
  source reads (\<^verbatim>\<open>decorator_list\<close>, \<^verbatim>\<open>defaults\<close>, \<^verbatim>\<open>bases\<close>, \<^verbatim>\<open>ctx\<close>
  and the like are never read and are left out).

  The operator classes carry no fields; they are collected in \<open>op_kind\<close> and wrapped by
  the constructor \<open>Operator\<close>. The classes \<^verbatim>\<open>If\<close>, \<^verbatim>\<open>Pow\<close> and \<^verbatim>\<open>Not\<close> clash
  with constants of HOL and are suffixed.

  \<^item> \<open>FunctionDef name args body\<close>: \<^verbatim>\<open>node.name\<close>, \<^verbatim>\<open>node.args.args\<close>, \<^verbatim>\<open>node.body\<close>.
  \<^item> \<open>Return value\<close>: \<^verbatim>\<open>node.value\<close> is \<^verbatim>\<open>None\<close> for a bare \<^verbatim>\<open>return\<close>.
  \<^item> \<open>Num n\<close>: \<^verbatim>\<open>node.n\<close>, the value of the literal, not its text; see \<open>number\<close>.
  \<^item> \<open>Other cls\<close>: a node of any class the source does not name (\<^verbatim>\<open>Str\<close>,
    \<^verbatim>\<open>Pass\<close>, \<^verbatim>\<open>While\<close>, \<^verbatim>\<open>Subscript\<close>, ...), with the name of its class.
\<close>

datatype op_kind =
    And | Or
  | Add | Sub | Mult | Div | Mod | Pow_op | LShift | RShift
  | BitOr | BitXor | BitAnd | FloorDiv
  | Invert | Not_op | UAdd | USub
  | Eq | NotEq | Lt | LtE | Gt | GtE | Is | IsNot | In | NotIn

text \<open>
  The value \<^verbatim>\<open>node.n\<close> of a numeric literal. An integer (Python's \<^verbatim>\<open>int\<close> and
  \<^verbatim>\<open>long\<close>, unbounded, of either sign: the parser of Python 2.7 folds the literal
  \<^verbatim>\<open>-5\<close> into the value \<open>-5\<close>) is an \<open>int\<close>. Floating-point arithmetic is
  outside HOL, and the only thing the translator does with the value is to render it with
  the built-in \<^verbatim>\<open>str\<close>: a floating-point or complex value is kept as the text that
  \<^verbatim>\<open>str\<close> gives for it (\<^verbatim>\<open>2.0\<close> for the literals \<^verbatim>\<open>2.0\<close> and \<^verbatim>\<open>2.00\<close>,
  \<^verbatim>\<open>1e+100\<close> for \<^verbatim>\<open>1e100\<close>).
\<close>

datatype number = PyInt int | PyFloat string

datatype node =
    FunctionDef string "node list" "node list"
  | Module "node list"
  | Return "node option"
  | Name string
  | ClassDef string "node list"
  | Assign "node list" node
  | Attribute node string
  | Num number
  | Tuple "node list"
  | BoolOp node "node list"
  | BinOp node node node
  | Compare node "node list" "node list"
  | UnaryOp node node
  | Lambda "node list" node
  | Call node "node list"
  | If_stmt node "node list" "node list"
  | IfExp node node node
  | Expr node
  | Operator op_kind
  | Other string

text \<open>
  Every way the source leaves a function other than by \<^verbatim>\<open>return\<close>:
  \<^item> \<open>KeyError\<close>: the dispatch table has no entry for the class of the node;
  \<^item> \<open>CompileError msg\<close>: the translator's own exception, raised by \<^verbatim>\<open>translate_assign\<close>;
  \<^item> \<open>AssertionError msg\<close>: a failed \<^verbatim>\<open>assert\<close> (the interpreter is taken to run
    without \<^verbatim>\<open>-O\<close>, which would remove the assertions);
  \<^item> \<open>IndexError\<close>: \<^verbatim>\<open>node.values[i]\<close> beyond the end of the list;
  \<^item> \<open>AttributeError\<close>: a field read on a node whose class lacks it.
\<close>

datatype error =
    KeyError
  | CompileError string
  | AssertionError string
  | IndexError
  | AttributeError

type_synonym result = "error + string"

section \<open>Python's built-ins\<close>

text \<open>\<^verbatim>\<open>sep.join(xs)\<close>.\<close>

fun join :: "string \<Rightarrow> string list \<Rightarrow> string" where
  "join sep [] = []"
| "join sep [x] = x"
| "join sep (x # y # ys) = x @ sep @ join sep (y # ys)"

text \<open>\<^verbatim>\<open>str(n)\<close> of an integer: its decimal digits, with a minus sign when negative.\<close>

definition digit_char :: "nat \<Rightarrow> char" where
  "digit_char d = char_of (48 + d)"

function str_nat :: "nat \<Rightarrow> string" where
  "str_nat n = (if n < 10 then [digit_char n] else str_nat (n div 10) @ [digit_char (n mod 10)])"
  by pat_completeness auto
termination
  by (relation "measure id") auto

declare str_nat.simps [simp del]

definition str_int :: "int \<Rightarrow> string" where
  "str_int n = (if n < 0 then CHR ''-'' # str_nat (nat (- n)) else str_nat (nat n))"

text \<open>\<^verbatim>\<open>str(n)\<close> of a number.\<close>

fun str :: "number \<Rightarrow> string" where
  "str (PyInt n) = str_int n"
| "str (PyFloat t) = t"

text \<open>
  A \<^verbatim>\<open>for\<close> loop that appends one translated item per element, or is left by the first
  exception: the results in order, or the first error.
\<close>

fun map_result :: "('a \<Rightarrow> error + 'b) \<Rightarrow> 'a list \<Rightarrow> error + 'b list" where
  "map_result f [] = Inr []"
| "map_result f (x # xs) =
     (case f x of
        Inl e \<Rightarrow> Inl e
      | Inr y \<Rightarrow> (case map_result f xs of Inl e \<Rightarrow> Inl e | Inr ys \<Rightarrow> Inr (y # ys)))"

lemma map_result_cong [fundef_cong]:
  "xs = ys \<Longrightarrow> (\<And>x. x \<in> set ys \<Longrightarrow> f x = g x) \<Longrightarrow> map_result f xs = map_result g ys"
  by (induction ys arbitrary: xs) (auto split: sum.splits)

text \<open>
  A Python dictionary with string keys is an association list with distinct keys, built by
  \<open>AList.update\<close> (\<^verbatim>\<open>d[k] = v\<close>) and read by \<open>map_of\<close>. The order in which
  \<^verbatim>\<open>d.items()\<close> lists the entries is not fixed by the language (before Python 3.7 it
  follows the hashes of the keys, which change from one run of the interpreter to the
  next when hash randomisation is on). The model makes that order a parameter: \<open>h\<close>
  ranks the keys, and \<open>items h d\<close> lists the entries by rank. Every order of the
  entries is \<open>items h d\<close> for some \<open>h\<close>.
\<close>

type_synonym 'v dict = "(string \<times> 'v) list"

definition items :: "(string \<Rightarrow> nat) \<Rightarrow> 'v dict \<Rightarrow> (string \<times> 'v) list" where
  "items h d = sort_key (\<lambda>kv. h (fst kv)) d"

text \<open>
  \<^verbatim>\<open>sorted(d.items())\<close> compares the pairs; the keys of a dictionary are distinct, so
  the comparison is decided by the keys and never reaches the values.
\<close>

definition sorted_items :: "(string \<Rightarrow> nat) \<Rightarrow> 'v dict \<Rightarrow> (string \<times> 'v) list" where
  "sorted_items h d = sort_key fst (items h d)"

section \<open>The translator\<close>

text \<open>The rows of the dispatch table for the operator classes (lines 30 to 52).\<close>

fun translate_operator :: "op_kind \<Rightarrow> result" where
  "translate_operator And = Inr ''&&''"
| "translate_operator Or = Inr ''||''"
| "translate_operator Add = Inr ''+''"
| "translate_operator Sub = Inr ''-''"
| "translate_operator Mult = Inr ''*''"
| "translate_operator Div = Inr ''/''"
| "translate_operator Mod = Inr ''%''"
| "translate_operator LShift = Inr ''<<''"
| "translate_operator RShift = Inr ''>>''"
| "translate_operator BitOr = Inr ''|''"
| "translate_operator BitXor = Inr ''^''"
| "translate_operator BitAnd = Inr ''&''"
| "translate_operator FloorDiv = Inr ''/''"
| "translate_operator Invert = Inr ''~''"
| "translate_operator Not_op = Inr ''!''"
| "translate_operator UAdd = Inr ''+''"
| "translate_operator USub = Inr ''-''"
| "translate_operator Eq = Inr ''==''"
| "translate_operator Lt = Inr ''<''"
| "translate_operator LtE = Inr ''<=''"
| "translate_operator Gt = Inr ''>''"
| "translate_operator GtE = Inr ''>=''"
| "translate_operator _ = Inl KeyError"

definition translate_name :: "string \<Rightarrow> result" where
  "translate_name ident = (if ident = ''self'' then Inr ''this'' else Inr ident)"

definition translate_tuple :: "node list \<Rightarrow> result" where
  "translate_tuple es = Inr ''?tuple?''"

definition translate_num :: "number \<Rightarrow> result" where
  "translate_num n = Inr (str n)"

text \<open>\<^verbatim>\<open>arg.id\<close> in \<^verbatim>\<open>[arg.id for arg in node.args.args]\<close>: only a \<^verbatim>\<open>Name\<close> has it.\<close>

fun arg_id :: "node \<Rightarrow> error + string" where
  "arg_id (Name ident) = Inr ident"
| "arg_id _ = Inl AttributeError"

text \<open>
  The \<^verbatim>\<open>isinstance\<close> tests of the source, and the fields read after a test has
  succeeded: \<^verbatim>\<open>target.elts\<close> of a \<^verbatim>\<open>Tuple\<close>, \<^verbatim>\<open>item.targets[0].id\<close> of a
  \<^verbatim>\<open>Name\<close>. (On a node of another class the selectors return an empty value; the
  translator never reads them there.)
\<close>

fun isinstance_If :: "node \<Rightarrow> bool" where
  "isinstance_If (If_stmt test body orelse) = True"
| "isinstance_If _ = False"

fun isinstance_Tuple :: "node \<Rightarrow> bool" where
  "isinstance_Tuple (Tuple es) = True"
| "isinstance_Tuple _ = False"

fun isinstance_Name :: "node \<Rightarrow> bool" where
  "isinstance_Name (Name ident) = True"
| "isinstance_Name _ = False"

fun elts :: "node \<Rightarrow> node list" where
  "elts (Tuple es) = es"
| "elts _ = []"

fun name_id :: "node \<Rightarrow> string" where
  "name_id (Name ident) = ident"
| "name_id _ = []"

fun fn_name :: "node \<Rightarrow> string" where
  "fn_name (FunctionDef name args body) = name"
| "fn_name _ = []"

fun fn_args :: "node \<Rightarrow> node list" where
  "fn_args (FunctionDef name args body) = args"
| "fn_args _ = []"

fun fn_body :: "node \<Rightarrow> node list" where
  "fn_body (FunctionDef name args body) = body"
| "fn_body _ = []"

text \<open>
  The first loop of \<^verbatim>\<open>translate_class\<close> (lines 198 to 207). It fills the dictionaries
  \<^verbatim>\<open>functions\<close> and \<^verbatim>\<open>assigns\<close> from the members of the class, a later member
  replacing an earlier one of the same name, and skips every member that is neither a
  function definition nor an assignment.
\<close>

fun class_members ::
  "node list \<Rightarrow> node dict \<times> node dict \<Rightarrow> error + (node dict \<times> node dict)" where
  "class_members [] (functions, assigns) = Inr (functions, assigns)"
| "class_members (FunctionDef name args body # rest) (functions, assigns) =
     class_members rest (AList.update name (FunctionDef name args body) functions, assigns)"
| "class_members (Assign targets val # rest) (functions, assigns) =
     (if length targets \<noteq> 1
      then Inl (AssertionError ''You can only assign to a single item.'')
      else if \<not> isinstance_Name (hd targets)
      then Inl (AssertionError ''You can only assign to simple names in classes'')
      else class_members rest (functions, AList.update (name_id (hd targets)) val assigns))"
| "class_members (item # rest) (functions, assigns) = class_members rest (functions, assigns)"

text \<open>What the dictionaries hold comes from the members: needed for the recursion below.\<close>

lemma set_update_subset: "set (AList.update k v al) \<subseteq> insert (k, v) (set al)"
  by (induction al) auto

lemma class_members_sizes:
  assumes "class_members body (fs0, as0) = Inr (fs, as)"
  shows "(\<forall>(k, f) \<in> set fs. (k, f) \<in> set fs0 \<or> f \<in> set body)
       \<and> (\<forall>(k, v) \<in> set as. (k, v) \<in> set as0 \<or> (\<exists>ts. Assign ts v \<in> set body))"
  using assms
proof (induction body "(fs0, as0)" arbitrary: fs0 as0 rule: class_members.induct)
  case (2 name args body rest fs1 as1)
  from "2.prems"
  have "class_members rest (AList.update name (FunctionDef name args body) fs1, as1) = Inr (fs, as)"
    by simp
  from "2.hyps"[OF this] set_update_subset[of name "FunctionDef name args body" fs1]
  show ?case by fastforce
next
  case (3 targets val rest fs1 as1)
  from "3.prems" have len: "length targets = 1" and nm: "isinstance_Name (hd targets)"
    and run: "class_members rest (fs1, AList.update (name_id (hd targets)) val as1) = Inr (fs, as)"
    by (auto split: if_splits)
  from "3.hyps"[OF _ _ run] len nm set_update_subset[of "name_id (hd targets)" val as1]
  show ?case by fastforce
qed (fastforce+)

lemma class_members_function_size:
  assumes "class_members body ([], []) = Inr (fs, as)" and "(k, f) \<in> set fs"
  shows "size f < size_list size body"
proof -
  from class_members_sizes[OF assms(1)] assms(2) have "f \<in> set body" by auto
  then show ?thesis by (induction body) auto
qed

lemma class_members_assign_size:
  assumes "class_members body ([], []) = Inr (fs, as)" and "(k, v) \<in> set as"
  shows "size v < size_list size body"
proof -
  from class_members_sizes[OF assms(1)] assms(2) obtain ts where "Assign ts v \<in> set body"
    by auto
  then show ?thesis by (induction body) auto
qed

lemma size_fn_fields: "size_list size (fn_args f) + size_list size (fn_body f) \<le> size f"
  by (cases f) auto

lemma size_member:
  "(x::node) \<in> set xs \<Longrightarrow> size x < size_list size xs \<and> size x \<le> sum_list (map size xs)"
  by (induction xs) auto

lemma sum_size_le: "sum_list (map size (xs::node list)) \<le> size_list size xs"
  by (induction xs) auto

lemma size_elts: "x \<in> set (elts t) \<Longrightarrow> size x < size t"
  by (cases t) (auto dest: size_member)

lemma size_zip_elts:
  "(a, b) \<in> set (zip (elts x) (elts v)) \<Longrightarrow> size a < size x \<and> size b < size v"
  by (auto dest: set_zip_leftD set_zip_rightD size_elts)

lemma size_hd: "length xs = Suc 0 \<Longrightarrow> size (hd xs) < size_list size xs"
  by (cases xs) auto

lemma class_function_fields_size:
  assumes "class_members body ([], []) = Inr (fs, as)" and "(k, f) \<in> set fs"
  shows "size_list size (fn_args f) + size_list size (fn_body f) < size_list size body"
  using class_members_function_size[OF assms] size_fn_fields[of f] by simp

lemma set_sorted_items [simp]: "set (sorted_items h d) = set d"
  by (simp add: sorted_items_def items_def)

text \<open>
  The dispatcher \<^verbatim>\<open>translate\<close> and the rules it routes to call each other. Each rule
  takes the fields of its node that the source reads. Every call of \<^verbatim>\<open>translate\<close> in
  the source passes the node alone, so \<^verbatim>\<open>kwargs\<close> is empty and
  \<^verbatim>\<open>translate_function\<close> is reached through the table with \<^verbatim>\<open>instance_method\<close> at
  its default; \<^verbatim>\<open>translate_class\<close> calls it directly with \<^verbatim>\<open>instance_method=True\<close>.
  The values of a \<^verbatim>\<open>%\<close> dictionary are evaluated in the order they are written, which
  fixes which exception is raised first.

  The argument \<open>h\<close> is the order of dictionary iteration (see \<open>items\<close>); only
  \<^verbatim>\<open>translate_class\<close> iterates over dictionaries.
\<close>

function
    translate :: "(string \<Rightarrow> nat) \<Rightarrow> node \<Rightarrow> result"
and translate_body :: "(string \<Rightarrow> nat) \<Rightarrow> node list \<Rightarrow> string \<Rightarrow> result"
and translate_module :: "(string \<Rightarrow> nat) \<Rightarrow> node list \<Rightarrow> result"
and translate_function :: "(string \<Rightarrow> nat) \<Rightarrow> string \<Rightarrow> node list \<Rightarrow> node list \<Rightarrow> bool \<Rightarrow> result"
and translate_return :: "(string \<Rightarrow> nat) \<Rightarrow> node option \<Rightarrow> result"
and translate_lambda :: "(string \<Rightarrow> nat) \<Rightarrow> node list \<Rightarrow> node \<Rightarrow> result"
and translate_if :: "(string \<Rightarrow> nat) \<Rightarrow> node \<Rightarrow> node list \<Rightarrow> node list \<Rightarrow> result"
and translate_if_exp :: "(string \<Rightarrow> nat) \<Rightarrow> node \<Rightarrow> node \<Rightarrow> node \<Rightarrow> result"
and translate_bool_op :: "(string \<Rightarrow> nat) \<Rightarrow> node \<Rightarrow> node list \<Rightarrow> result"
and translate_bin_op :: "(string \<Rightarrow> nat) \<Rightarrow> node \<Rightarrow> node \<Rightarrow> node \<Rightarrow> result"
and translate_unary_op :: "(string \<Rightarrow> nat) \<Rightarrow> node \<Rightarrow> node \<Rightarrow> result"
and translate_attribute :: "(string \<Rightarrow> nat) \<Rightarrow> node \<Rightarrow> string \<Rightarrow> result"
and translate_assign :: "(string \<Rightarrow> nat) \<Rightarrow> node list \<Rightarrow> node \<Rightarrow> result"
and translate_call :: "(string \<Rightarrow> nat) \<Rightarrow> node \<Rightarrow> node list \<Rightarrow> result"
and translate_compare :: "(string \<Rightarrow> nat) \<Rightarrow> node \<Rightarrow> node list \<Rightarrow> node list \<Rightarrow> result"
and translate_class :: "(string \<Rightarrow> nat) \<Rightarrow> string \<Rightarrow> node list \<Rightarrow> result"
where
  "translate h (FunctionDef name args body) = translate_function h name args body False"
| "translate h (Module body) = translate_module h body"
| "translate h (Return val) = translate_return h val"
| "translate h (Name ident) = translate_name ident"
| "translate h (ClassDef name body) = translate_class h name body"
| "translate h (Assign targets val) = translate_assign h targets val"
| "translate h (Attribute val attr) = translate_attribute h val attr"
| "translate h (Num n) = translate_num n"
| "translate h (Tuple es) = translate_tuple es"
| "translate h (BoolOp op vals) = translate_bool_op h op vals"
| "translate h (BinOp left op right) = translate_bin_op h left op right"
| "translate h (Compare left ops comparators) = translate_compare h left ops comparators"
| "translate h (UnaryOp op operand) = translate_unary_op h op operand"
| "translate h (Lambda args body) = translate_lambda h args body"
| "translate h (Call func args) = translate_call h func args"
| "translate h (If_stmt test body orelse) = translate_if h test body orelse"
| "translate h (IfExp test body orelse) = translate_if_exp h test body orelse"
| "translate h (Expr val) = translate h val"
| "translate h (Operator k) = translate_operator k"
| "translate h (Other cls) = Inl KeyError"

| "translate_body h body line_separator =
     (case map_result
             (\<lambda>node. if isinstance_If node then translate h node
                     else (case translate h node of
                             Inl e \<Rightarrow> Inl e
                           | Inr t \<Rightarrow> Inr (t @ '';''))) body of
        Inl e \<Rightarrow> Inl e
      | Inr s \<Rightarrow> Inr (join ''\<newline>'' s))"

| "translate_module h body = translate_body h body ''\<newline>\<newline>''"

| "translate_function h name args body instance_method =
     (if instance_method
      then (case map_result arg_id (drop 1 args) of
              Inl e \<Rightarrow> Inl e
            | Inr ids \<Rightarrow>
                (case translate_body h body ''\<newline>'' of
                   Inl e \<Rightarrow> Inl e
                 | Inr body_def \<Rightarrow>
                     Inr (''function ('' @ join '', '' ids @ '') { '' @ body_def @ '' }'')))
      else (case map_result arg_id args of
              Inl e \<Rightarrow> Inl e
            | Inr ids \<Rightarrow>
                (case translate_body h body ''\<newline>'' of
                   Inl e \<Rightarrow> Inl e
                 | Inr body_def \<Rightarrow>
                     Inr (''var '' @ name @ '' = function ('' @ join '', '' ids @ '') { ''
                          @ body_def @ '' }''))))"

| "translate_return h val =
     (case val of
        None \<Rightarrow> Inl KeyError
      | Some v \<Rightarrow> (case translate h v of Inl e \<Rightarrow> Inl e | Inr t \<Rightarrow> Inr (''return '' @ t)))"

| "translate_lambda h args body =
     (case map_result arg_id args of
        Inl e \<Rightarrow> Inl e
      | Inr ids \<Rightarrow>
          (case translate_body h [body] ''\<newline>'' of
             Inl e \<Rightarrow> Inl e
           | Inr body_def \<Rightarrow>
               Inr (''function('' @ join '', '' ids @ '') {\<newline>return '' @ body_def
                    @ ''\<newline>}'')))"

| "translate_if h test body orelse =
     (case translate h test of
        Inl e \<Rightarrow> Inl e
      | Inr test_def \<Rightarrow>
          (case translate_body h body ''\<newline>'' of
             Inl e \<Rightarrow> Inl e
           | Inr body_def \<Rightarrow>
               (let s = [''if ('' @ test_def @ '') { '' @ body_def @ '' }''] in
                if orelse \<noteq> []
                then (case translate_body h orelse ''\<newline>'' of
                        Inl e \<Rightarrow> Inl e
                      | Inr orelse_def \<Rightarrow>
                          Inr (join ''\<newline>'' (s @ [''else { '' @ orelse_def @ '' }''])))
                else Inr (join ''\<newline>'' s))))"

| "translate_if_exp h test body orelse =
     (case translate h test of
        Inl e \<Rightarrow> Inl e
      | Inr t \<Rightarrow>
          (case translate h body of
             Inl e \<Rightarrow> Inl e
           | Inr b \<Rightarrow>
               (case translate h orelse of
                  Inl e \<Rightarrow> Inl e
                | Inr orl \<Rightarrow> Inr (t @ '' ? '' @ b @ '' : '' @ orl))))"

| "translate_bool_op h op vals =
     (case vals of
        [] \<Rightarrow> Inl IndexError
      | v0 # rest \<Rightarrow>
          (case translate h v0 of
             Inl e \<Rightarrow> Inl e
           | Inr left \<Rightarrow>
               (case translate h op of
                  Inl e \<Rightarrow> Inl e
                | Inr opr \<Rightarrow>
                    (case rest of
                       [] \<Rightarrow> Inl IndexError
                     | v1 # others \<Rightarrow>
                         (case translate h v1 of
                            Inl e \<Rightarrow> Inl e
                          | Inr right \<Rightarrow>
                              Inr (''('' @ left @ '' '' @ opr @ '' '' @ right @ '')''))))))"

| "translate_bin_op h left op right =
     (if op = Operator Pow_op
      then (case translate h left of
              Inl e \<Rightarrow> Inl e
            | Inr l \<Rightarrow>
                (case translate h right of
                   Inl e \<Rightarrow> Inl e
                 | Inr r \<Rightarrow> Inr (''Math.pow('' @ l @ '', '' @ r @ '')'')))
      else (case translate h left of
              Inl e \<Rightarrow> Inl e
            | Inr l \<Rightarrow>
                (case translate h op of
                   Inl e \<Rightarrow> Inl e
                 | Inr opr \<Rightarrow>
                     (case translate h right of
                        Inl e \<Rightarrow> Inl e
                      | Inr r \<Rightarrow> Inr (''('' @ l @ '' '' @ opr @ '' '' @ r @ '')'')))))"

| "translate_unary_op h op operand =
     (case translate h op of
        Inl e \<Rightarrow> Inl e
      | Inr opr \<Rightarrow>
          (case translate h operand of
             Inl e \<Rightarrow> Inl e
           | Inr x \<Rightarrow> Inr (join [] [opr, x])))"

| "translate_attribute h val attr =
     (case translate h val of
        Inl e \<Rightarrow> Inl e
      | Inr left \<Rightarrow> Inr (left @ ''.'' @ attr))"

| "translate_assign h targets val =
     (case map_result
             (\<lambda>target.
                if isinstance_Tuple target
                then (if isinstance_Tuple val
                      then (if length (elts target) \<noteq> length (elts val)
                            then Inl (CompileError
                                   ''Assigning one tuple to another of different length.'')
                            else map_result
                                   (\<lambda>(t, v).
                                      case translate h v of
                                        Inl e \<Rightarrow> Inl e
                                      | Inr value_def \<Rightarrow>
                                          (case translate h t of
                                             Inl e \<Rightarrow> Inl e
                                           | Inr target_def \<Rightarrow>
                                               Inr (target_def @ '' = '' @ value_def)))
                                   (zip (elts target) (elts val)))
                      else Inl (CompileError ''Assigning a non-tuple to a tuple.''))
                else (case translate h val of
                        Inl e \<Rightarrow> Inl e
                      | Inr value_def \<Rightarrow>
                          (case translate h target of
                             Inl e \<Rightarrow> Inl e
                           | Inr target_def \<Rightarrow> Inr [target_def @ '' = '' @ value_def])))
             targets of
        Inl e \<Rightarrow> Inl e
      | Inr statements \<Rightarrow> Inr (join '';\<newline>'' (concat statements)))"

| "translate_call h func args =
     (case map_result (translate h) args of
        Inl e \<Rightarrow> Inl e
      | Inr arg_defs \<Rightarrow>
          (case translate h func of
             Inl e \<Rightarrow> Inl e
           | Inr func_def \<Rightarrow> Inr (func_def @ ''('' @ join '', '' arg_defs @ '')'')))"

| "translate_compare h left ops comparators =
     (if length ops \<noteq> 1 then Inl (AssertionError ''Cannot have multiple comparison'')
      else if length comparators \<noteq> 1 then Inl (AssertionError ''Cannot have multiple comparison'')
      else (case translate h left of
              Inl e \<Rightarrow> Inl e
            | Inr l \<Rightarrow>
                (case translate h (hd ops) of
                   Inl e \<Rightarrow> Inl e
                 | Inr opr \<Rightarrow>
                     (case translate h (hd comparators) of
                        Inl e \<Rightarrow> Inl e
                      | Inr c \<Rightarrow> Inr (''('' @ l @ '' '' @ opr @ '' '' @ c @ '')'')))))"

| "translate_class h name body =
     (case class_members body ([], []) of
        Inl e \<Rightarrow> Inl e
      | Inr (functions, assigns) \<Rightarrow>
          (case (case map_of functions ''__init__'' of
                   Some f \<Rightarrow> translate_function h (fn_name f) (fn_args f) (fn_body f) True
                 | None \<Rightarrow> Inr ''function () {}'') of
             Inl e \<Rightarrow> Inl e
           | Inr init_def \<Rightarrow>
               (case map_result
                       (\<lambda>(aname, anode).
                          case translate h anode of
                            Inl e \<Rightarrow> Inl e
                          | Inr t \<Rightarrow> Inr (CHR 0x27 # aname @ ''': '' @ t))
                       (sorted_items h assigns) of
                  Inl e \<Rightarrow> Inl e
                | Inr assign_defs \<Rightarrow>
                    (case map_result
                            (\<lambda>(fname, fnode).
                               case translate_function h (fn_name fnode) (fn_args fnode)
                                      (fn_body fnode) True of
                                 Inl e \<Rightarrow> Inl e
                               | Inr t \<Rightarrow> Inr (CHR 0x27 # fname @ ''': '' @ t))
                            (filter (\<lambda>(fname, fnode). fname \<noteq> ''__init__'')
                               (sorted_items h functions)) of
                       Inl e \<Rightarrow> Inl e
                     | Inr method_defs \<Rightarrow>
                         Inr (''var '' @ name @ '' = '' @ init_def @ '';\<newline>'' @ name
                              @ ''.prototype = { ''
                              @ join '',\<newline>'' (assign_defs @ method_defs) @ '' }'')))))"
  by pat_completeness auto
termination
proof (relation "measure
    (case_sum
      (case_sum
        (case_sum
          (case_sum (\<lambda>(h, n). 3 * size n)
                    (\<lambda>(h, body, sep). 3 * sum_list (map size body) + 1))
          (case_sum (\<lambda>(h, body). 3 * size_list size body + 2)
                    (\<lambda>(h, name, args, body, im).
                       3 * (size_list size args + size_list size body) + 2)))
        (case_sum
          (case_sum (\<lambda>(h, val). 3 * size_option size val + 2)
                    (\<lambda>(h, args, body). 3 * (size_list size args + size body) + 2))
          (case_sum (\<lambda>(h, test, body, orelse).
                       3 * (size test + size_list size body + size_list size orelse) + 2)
                    (\<lambda>(h, test, body, orelse). 3 * (size test + size body + size orelse) + 2))))
      (case_sum
        (case_sum
          (case_sum (\<lambda>(h, op, vals). 3 * (size op + size_list size vals) + 2)
                    (\<lambda>(h, left, op, right). 3 * (size left + size op + size right) + 2))
          (case_sum (\<lambda>(h, op, operand). 3 * (size op + size operand) + 2)
                    (\<lambda>(h, val, attr). 3 * size val + 2)))
        (case_sum
          (case_sum (\<lambda>(h, targets, val). 3 * (size_list size targets + size val) + 2)
                    (\<lambda>(h, func, args). 3 * (size func + size_list size args) + 2))
          (case_sum (\<lambda>(h, left, ops, comparators).
                       3 * (size left + size_list size ops + size_list size comparators) + 2)
                    (\<lambda>(h, name, body). 3 * size_list size body + 2)))))",
    goal_cases)
  case 1
  show ?case by simp
qed (auto simp: less_Suc_eq_le sum_size_le trans_le_add2 trans_le_add1
      dest!: size_member size_zip_elts size_hd map_of_SomeD
      dest: class_function_fields_size class_members_assign_size)

text \<open>
  For closed examples the order of dictionary iteration has to be a concrete one: with
  every key at the same rank, \<open>items\<close> leaves the entries in the order of their first
  insertion, as Python does from version 3.7 on.
\<close>

definition insertion_order :: "string \<Rightarrow> nat" where
  "insertion_order k = 0"

section \<open>What the claims speak of\<close>

subsection \<open>The text of an integer literal\<close>

text \<open>
  The tree is built by Python's own parser, outside the repository, and a \<^verbatim>\<open>Num\<close>
  node keeps the value of its literal, not the text. To speak of the text, the reading
  of an integer literal is written down for the two commonest forms of the language:
  a decimal literal (\<^verbatim>\<open>0\<close>, or digits that do not start with \<^verbatim>\<open>0\<close>) and a
  hexadecimal literal (\<^verbatim>\<open>0x\<close> or \<^verbatim>\<open>0X\<close> and hexadecimal digits). Any other text is
  not read (\<open>None\<close>).
\<close>

definition digit_of :: "char \<Rightarrow> nat option" where
  "digit_of c =
     (let k = (of_char c :: nat) in
      if 48 \<le> k \<and> k \<le> 57 then Some (k - 48)
      else if 97 \<le> k \<and> k \<le> 102 then Some (k - 87)
      else if 65 \<le> k \<and> k \<le> 70 then Some (k - 55)
      else None)"

fun read_digits :: "nat \<Rightarrow> nat \<Rightarrow> string \<Rightarrow> nat option" where
  "read_digits base acc [] = Some acc"
| "read_digits base acc (c # cs) =
     (case digit_of c of
        None \<Rightarrow> None
      | Some d \<Rightarrow> if d < base then read_digits base (acc * base + d) cs else None)"

fun int_literal :: "string \<Rightarrow> int option" where
  "int_literal [] = None"
| "int_literal (c0 # c1 # d # ds) =
     (if c0 = CHR ''0'' \<and> (c1 = CHR ''x'' \<or> c1 = CHR ''X'')
      then map_option int (read_digits 16 0 (d # ds))
      else if c0 = CHR ''0'' then None
      else map_option int (read_digits 10 0 (c0 # c1 # d # ds)))"
| "int_literal [c0, c1] =
     (if c0 = CHR ''0'' then None else map_option int (read_digits 10 0 [c0, c1]))"
| "int_literal [c0] = map_option int (read_digits 10 0 [c0])"

definition is_decimal_digit :: "char \<Rightarrow> bool" where
  "is_decimal_digit c \<longleftrightarrow> 48 \<le> (of_char c :: nat) \<and> (of_char c :: nat) \<le> 57"

text \<open>
  A literal with a minus sign in front, which the parser of Python 2.7 folds into one
  \<^verbatim>\<open>Num\<close> node of the negated value.
\<close>

definition signed_literal :: "string \<Rightarrow> int option" where
  "signed_literal s =
     (if s \<noteq> [] \<and> hd s = CHR ''-'' then map_option uminus (int_literal (tl s))
      else int_literal s)"

subsection \<open>The members of a class\<close>

text \<open>
  The members of a class body that the prototype table is made from, in the order of the
  source: the simple assignments (one target, a name) with the name and the value, and
  the function definitions with their name.
\<close>

fun assign_members :: "node list \<Rightarrow> (string \<times> node) list" where
  "assign_members [] = []"
| "assign_members (Assign targets val # rest) =
     (if length targets = 1 \<and> isinstance_Name (hd targets)
      then (name_id (hd targets), val) # assign_members rest
      else assign_members rest)"
| "assign_members (item # rest) = assign_members rest"

fun function_members :: "node list \<Rightarrow> (string \<times> node) list" where
  "function_members [] = []"
| "function_members (FunctionDef name args body # rest) =
     (name, FunctionDef name args body) # function_members rest"
| "function_members (item # rest) = function_members rest"

text \<open>The last member of a given name, and the names of the members in ascending order,
  each name once.\<close>

definition last_member :: "(string \<times> node) list \<Rightarrow> string \<Rightarrow> node option" where
  "last_member ms k = map_of (rev ms) k"

definition member_names :: "(string \<times> node) list \<Rightarrow> string list" where
  "member_names ms = sort (remdups (map fst ms))"

text \<open>An entry \<^verbatim>\<open>'name': value\<close> of the table, and a function definition translated as
  an instance method.\<close>

definition table_entry :: "string \<Rightarrow> string \<Rightarrow> string" where
  "table_entry k t = CHR 0x27 # k @ ''': '' @ t"

definition translate_method :: "(string \<Rightarrow> nat) \<Rightarrow> node \<Rightarrow> result" where
  "translate_method h f = translate_function h (fn_name f) (fn_args f) (fn_body f) True"

text \<open>
  The names of the table entries in the words of claim C1: every simple assignment, then
  every function other than the initializer, each group in ascending order of the names.
\<close>

definition claimed_table_names :: "node list \<Rightarrow> string list" where
  "claimed_table_names body =
     sort (map fst (assign_members body))
     @ filter (\<lambda>k. k \<noteq> ''__init__'') (sort (map fst (function_members body)))"

subsection \<open>References to \<^verbatim>\<open>self\<close>\<close>

text \<open>
  The tree in which every reference to \<^verbatim>\<open>self\<close> has been replaced by a reference to
  \<^verbatim>\<open>this\<close>. A reference is a \<^verbatim>\<open>Name\<close> node in any position but the two where a
  name is bound and not used: the parameter list of a function or lambda, and the target
  of an assignment that is a member of a class (the key of its table entry).
\<close>

fun self_to_this :: "node \<Rightarrow> node" where
  "self_to_this (Name ident) = Name (if ident = ''self'' then ''this'' else ident)"
| "self_to_this (FunctionDef name args body) = FunctionDef name args (map self_to_this body)"
| "self_to_this (Lambda args body) = Lambda args (self_to_this body)"
| "self_to_this (ClassDef name body) =
     ClassDef name
       (map (\<lambda>member. case member of
                         Assign targets val \<Rightarrow> Assign targets (self_to_this val)
                       | _ \<Rightarrow> self_to_this member) body)"
| "self_to_this (Module body) = Module (map self_to_this body)"
| "self_to_this (Return val) = Return (map_option self_to_this val)"
| "self_to_this (Assign targets val) = Assign (map self_to_this targets) (self_to_this val)"
| "self_to_this (Attribute val attr) = Attribute (self_to_this val) attr"
| "self_to_this (Num n) = Num n"
| "self_to_this (Tuple es) = Tuple (map self_to_this es)"
| "self_to_this (BoolOp op vals) = BoolOp (self_to_this op) (map self_to_this vals)"
| "self_to_this (BinOp left op right) =
     BinOp (self_to_this left) (self_to_this op) (self_to_this right)"
| "self_to_this (Compare left ops comparators) =
     Compare (self_to_this left) (map self_to_this ops) (map self_to_this comparators)"
| "self_to_this (UnaryOp op operand) = UnaryOp (self_to_this op) (self_to_this operand)"
| "self_to_this (Call func args) = Call (self_to_this func) (map self_to_this args)"
| "self_to_this (If_stmt test body orelse) =
     If_stmt (self_to_this test) (map self_to_this body) (map self_to_this orelse)"
| "self_to_this (IfExp test body orelse) =
     IfExp (self_to_this test) (self_to_this body) (self_to_this orelse)"
| "self_to_this (Expr val) = Expr (self_to_this val)"
| "self_to_this (Operator k) = Operator k"
| "self_to_this (Other cls) = Other cls"

text \<open>What the replacement does to a member of a class.\<close>

definition class_member_self_to_this :: "node \<Rightarrow> node" where
  "class_member_self_to_this member =
     (case member of
        Assign targets val \<Rightarrow> Assign targets (self_to_this val)
      | _ \<Rightarrow> self_to_this member)"

section \<open>Loops with exceptions\<close>

lemma map_result_append:
  "map_result f (xs @ ys) =
     (case map_result f xs of
        Inl e \<Rightarrow> Inl e
      | Inr a \<Rightarrow> (case map_result f ys of Inl e \<Rightarrow> Inl e | Inr b \<Rightarrow> Inr (a @ b)))"
  by (induction xs) (auto split: sum.splits)

lemma map_result_Inr_iff: "map_result f xs = Inr ys \<longleftrightarrow> map f xs = map Inr ys"
proof (induction xs arbitrary: ys)
  case Nil
  then show ?case by auto
next
  case (Cons x xs)
  show ?case
  proof (cases ys)
    case Nil
    then show ?thesis by (auto split: sum.splits)
  next
    case (Cons y ys')
    with Cons.IH[of ys'] show ?thesis by (auto split: sum.splits)
  qed
qed

section \<open>Expressions\<close>

text \<open>
  Claim C2, as the code has it. A binary operation whose operator is \<^verbatim>\<open>Pow\<close>, with
  operands that translate to \<open>A\<close> and \<open>B\<close>, is emitted as \<^verbatim>\<open>Math.pow(A, B)\<close>, the
  operands in their order. The claim's text \<^verbatim>\<open>pow(A, B)\<close> lacks the \<^verbatim>\<open>Math.\<close>
  prefix that line 133 writes.
\<close>

theorem pow_emits_Math_pow:
  assumes "translate h left = Inr A" and "translate h right = Inr B"
  shows "translate h (BinOp left (Operator Pow_op) right)
         = Inr (''Math.pow('' @ A @ '', '' @ B @ '')'')"
  using assms by simp

theorem pow_emits_Math_pow_witness:
  "translate insertion_order (Num (PyInt 2)) = Inr ''2'' \<and> translate insertion_order (Num (PyInt 3)) = Inr ''3''
   \<and> translate insertion_order (BinOp (Num (PyInt 2)) (Operator Pow_op) (Num (PyInt 3))) = Inr ''Math.pow(2, 3)''"
proof -
  have a: "translate insertion_order (Num (PyInt 2)) = Inr ''2''" by code_simp
  have b: "translate insertion_order (Num (PyInt 3)) = Inr ''3''" by code_simp
  from pow_emits_Math_pow[OF a b] a b show ?thesis by simp
qed

text \<open>
  Claim C2 as stated fails: for \<^verbatim>\<open>2 ** 3\<close> the operands translate to \<^verbatim>\<open>2\<close> and
  \<^verbatim>\<open>3\<close>, and the output is not \<^verbatim>\<open>pow(2, 3)\<close>.
\<close>

theorem pow_not_bare_pow_counterexample:
  "translate insertion_order (Num (PyInt 2)) = Inr ''2'' \<and> translate insertion_order (Num (PyInt 3)) = Inr ''3''
   \<and> translate insertion_order (BinOp (Num (PyInt 2)) (Operator Pow_op) (Num (PyInt 3)))
       \<noteq> Inr (''pow('' @ ''2'' @ '', '' @ ''3'' @ '')'')"
  by code_simp

text \<open>
  \<^verbatim>\<open>str\<close> of a natural number is its canonical decimal literal: decimal digits, no
  leading zero, and reading it gives the number back.
\<close>

lemma digit_of_digit_char: "d < 10 \<Longrightarrow> digit_of (digit_char d) = Some d"
  by (simp add: digit_of_def digit_char_def)

lemma read_digits_snoc:
  "read_digits base acc (cs @ [c]) =
     (case read_digits base acc cs of
        None \<Rightarrow> None
      | Some v \<Rightarrow> (case digit_of c of
                     None \<Rightarrow> None
                   | Some d \<Rightarrow> if d < base then Some (v * base + d) else None))"
  by (induction cs arbitrary: acc) (auto split: option.splits)

lemma read_str_nat: "read_digits 10 0 (str_nat n) = Some n"
proof (induction n rule: str_nat.induct)
  case (1 n)
  show ?case
  proof (cases "n < 10")
    case True
    then show ?thesis by (simp add: str_nat.simps[of n] digit_of_digit_char)
  next
    case False
    with 1 show ?thesis
      by (simp add: str_nat.simps[of n] read_digits_snoc digit_of_digit_char)
  qed
qed

lemma digit_char_decimal: "d < 10 \<Longrightarrow> is_decimal_digit (digit_char d)"
  by (simp add: is_decimal_digit_def digit_char_def)

lemma digit_char_0: "digit_char 0 = CHR ''0''"
  by code_simp

lemma digit_char_eq_0:
  assumes "d < 10"
  shows "digit_char d = CHR ''0'' \<longleftrightarrow> d = 0"
proof
  assume "digit_char d = CHR ''0''"
  then have "digit_char d = digit_char 0" by (simp add: digit_char_0)
  then have "(of_char (digit_char d) :: nat) = of_char (digit_char 0)" by simp
  with assms show "d = 0" by (simp add: digit_char_def)
next
  assume "d = 0"
  then show "digit_char d = CHR ''0''" by (simp add: digit_char_0)
qed

lemma of_char_x: "(of_char CHR ''x'' :: nat) = 120" "(of_char CHR ''X'' :: nat) = 88"
  by code_simp+

lemma str_nat_digits: "list_all is_decimal_digit (str_nat n)"
proof (induction n rule: str_nat.induct)
  case (1 n)
  then show ?case by (cases "n < 10") (simp_all add: str_nat.simps[of n] digit_char_decimal)
qed

lemma str_nat_nonempty: "str_nat n \<noteq> []"
  by (simp add: str_nat.simps[of n])

lemma str_nat_no_leading_zero: "0 < n \<Longrightarrow> hd (str_nat n) \<noteq> CHR ''0''"
proof (induction n rule: str_nat.induct)
  case (1 n)
  show ?case
  proof (cases "n < 10")
    case True
    with 1 show ?thesis by (simp add: str_nat.simps[of n] digit_char_eq_0)
  next
    case False
    then have "0 < n div 10" by simp
    with 1 False show ?thesis by (simp add: str_nat.simps[of n] str_nat_nonempty)
  qed
qed

lemma int_literal_decimal:
  assumes "list_all is_decimal_digit s" and "s \<noteq> []" and "length s = 1 \<or> hd s \<noteq> CHR ''0''"
  shows "int_literal s = map_option int (read_digits 10 0 s)"
proof (cases s rule: int_literal.cases)
  case (2 c0 c1 d ds)
  with assms have "is_decimal_digit c1" "c0 \<noteq> CHR ''0''" by simp_all
  then have "c1 \<noteq> CHR ''x''" "c1 \<noteq> CHR ''X''" by (auto simp: is_decimal_digit_def of_char_x)
  with 2 \<open>c0 \<noteq> CHR ''0''\<close> show ?thesis by simp
qed (use assms in auto)

lemma int_literal_str_nat: "int_literal (str_nat n) = Some (int n)"
proof -
  have "length (str_nat n) = 1 \<or> hd (str_nat n) \<noteq> CHR ''0''"
    by (cases "n = 0") (simp_all add: str_nat.simps[of 0] str_nat_no_leading_zero)
  from int_literal_decimal[OF str_nat_digits str_nat_nonempty this]
  show ?thesis by (simp add: read_str_nat)
qed

lemma hd_str_nat_not_minus: "hd (str_nat n) \<noteq> CHR ''-''"
proof
  assume m: "hd (str_nat n) = CHR ''-''"
  from str_nat_digits[of n] str_nat_nonempty[of n] have "is_decimal_digit (hd (str_nat n))"
    by (cases "str_nat n") simp_all
  then have "48 \<le> (of_char (hd (str_nat n)) :: nat)" by (simp add: is_decimal_digit_def)
  moreover have "(of_char CHR ''-'' :: nat) = 45" by code_simp
  ultimately show False using m by simp
qed

lemma signed_literal_str_int: "signed_literal (str_int i) = Some i"
proof (cases "i < 0")
  case True
  then show ?thesis by (simp add: signed_literal_def str_int_def int_literal_str_nat)
next
  case False
  then show ?thesis
    by (simp add: signed_literal_def str_int_def int_literal_str_nat hd_str_nat_not_minus)
qed

text \<open>
  Claim C4, as the code has it. \<^verbatim>\<open>translate_num\<close> is \<^verbatim>\<open>str(node.n)\<close>: the text of
  the literal is gone by then, and what is emitted is \<^verbatim>\<open>str\<close> of the value, whatever
  kind of number it is. For an integer \<open>i\<close> of either sign that is its canonical decimal
  text: it reads back as \<open>i\<close>, and apart from the minus sign of a negative value it
  consists of decimal digits (reading it back excludes a leading zero). It is the text of
  the source literal only where that was already written so.
\<close>

theorem num_emitted_as_str:
  "translate h (Num n) = Inr (str n)
   \<and> signed_literal (str (PyInt i)) = Some i
   \<and> list_all is_decimal_digit (if i < 0 then tl (str (PyInt i)) else str (PyInt i))"
proof -
  have "list_all is_decimal_digit (if i < 0 then tl (str_int i) else str_int i)"
    by (simp add: str_int_def str_nat_digits)
  then show ?thesis
    by (simp add: translate_num_def signed_literal_str_int split: if_splits)
qed

text \<open>
  Three literals: \<^verbatim>\<open>16\<close>, the negative \<^verbatim>\<open>-5\<close>, and the floating-point
  \<^verbatim>\<open>2.0\<close>, whose value \<^verbatim>\<open>str\<close> renders as \<^verbatim>\<open>2.0\<close>.
\<close>

lemma num_examples:
  "translate insertion_order (Num (PyInt 16)) = Inr ''16''"
  "translate insertion_order (Num (PyInt (- 5))) = Inr ''-5''"
  "translate insertion_order (Num (PyFloat ''2.0'')) = Inr ''2.0''"
  by code_simp+

text \<open>
  Claim C4 as stated fails for a literal that is not written as \<^verbatim>\<open>str\<close> renders its
  value. The literal \<^verbatim>\<open>0x10\<close> has the value 16, its node is \<open>Num (PyInt 16)\<close>, and
  the emitted text is \<^verbatim>\<open>16\<close>: the base has been converted.
\<close>

theorem hex_literal_reformatted_counterexample:
  "int_literal ''0x10'' = Some 16 \<and> translate insertion_order (Num (PyInt 16)) = Inr ''16''
   \<and> ''16'' \<noteq> ''0x10''"
  by code_simp

text \<open>
  Claim C7. A comparison with more than one operator, or more than one comparator, fails
  with the assertion error of lines 186 and 187 and returns no text: the assertions come
  before anything is translated, so not even the left operand is looked at.
\<close>

theorem chained_compare_fails:
  assumes "1 < length ops \<or> 1 < length comparators"
  shows "translate h (Compare left ops comparators)
         = Inl (AssertionError ''Cannot have multiple comparison'')"
  using assms by auto

theorem chained_compare_fails_witness:
  "(1 < length [Operator Lt, Operator Lt] \<or> 1 < length [Name ''x'', Num (PyInt 2)])
   \<and> translate insertion_order (Compare (Num (PyInt 1)) [Operator Lt, Operator Lt] [Name ''x'', Num (PyInt 2)])
       = Inl (AssertionError ''Cannot have multiple comparison'')"
  using chained_compare_fails[of "[Operator Lt, Operator Lt]" "[Name ''x'', Num (PyInt 2)]"
          insertion_order "Num (PyInt 1)"]
  by simp

text \<open>
  Claim C10. A boolean operation with at least two operands is emitted as
  \<^verbatim>\<open>(v0 op v1)\<close> from its first two operands; whatever follows them is never translated,
  so it changes neither the text nor whether an error is raised.
\<close>

theorem bool_op_first_two:
  assumes "translate h v0 = Inr A" and "translate h op = Inr opr" and "translate h v1 = Inr B"
  shows "translate h (BoolOp op (v0 # v1 # others))
         = Inr (''('' @ A @ '' '' @ opr @ '' '' @ B @ '')'')"
  using assms by simp

text \<open>
  The third operand here is a string literal, a node the dispatcher has no rule for: on
  its own it raises \<^verbatim>\<open>KeyError\<close>, inside the boolean operation it is dropped.
\<close>

theorem bool_op_first_two_witness:
  "translate insertion_order (Name ''a'') = Inr ''a''
   \<and> translate insertion_order (Operator And) = Inr ''&&''
   \<and> translate insertion_order (Name ''b'') = Inr ''b''
   \<and> translate insertion_order (Other ''Str'') = Inl KeyError
   \<and> translate insertion_order (BoolOp (Operator And) [Name ''a'', Name ''b'', Other ''Str''])
       = Inr ''(a && b)''"
proof -
  have a: "translate insertion_order (Name ''a'') = Inr ''a''" by (simp add: translate_name_def)
  have o: "translate insertion_order (Operator And) = Inr ''&&''" by simp
  have b: "translate insertion_order (Name ''b'') = Inr ''b''" by (simp add: translate_name_def)
  from bool_op_first_two[OF a o b, of "[Other ''Str'']"] a o b show ?thesis by simp
qed

section \<open>Statements\<close>

text \<open>The separator that \<^verbatim>\<open>translate_body\<close> is given makes no difference to what it returns.\<close>

lemma translate_body_ignores_separator:
  "translate_body h body line_separator = translate_body h body line_separator'"
  by simp

text \<open>
  Claim C3, at the input where the code departs from it. \<^verbatim>\<open>translate_module\<close> passes
  \<^verbatim>\<open>line_separator='\n\n'\<close>, but \<^verbatim>\<open>translate_body\<close> never reads that parameter and
  joins with \<^verbatim>\<open>'\n'\<close> (line 62): the two statements of this module come out one
  newline apart, not two.
\<close>

theorem module_joined_by_single_newline:
  "translate insertion_order (Module [Expr (Name ''a''), Expr (Name ''b'')]) = Inr ''a;\<newline>b;''
   \<and> ''a;\<newline>b;'' \<noteq> ''a;\<newline>\<newline>b;''"
  by code_simp

text \<open>The inner loop of \<^verbatim>\<open>translate_assign\<close> over \<^verbatim>\<open>zip(target.elts, node.value.elts)\<close>.\<close>

lemma pairwise_statements:
  assumes "length ts = length vs"
      and "map f ts = map Inr Ts" and "map g vs = map Inr Vs"
  shows "map_result
           (\<lambda>(t, v). case g v of
                        Inl e \<Rightarrow> Inl e
                      | Inr b \<Rightarrow> (case f t of Inl e \<Rightarrow> Inl e | Inr a \<Rightarrow> Inr (F a b)))
           (zip ts vs)
         = Inr (map2 F Ts Vs)"
  using assms
proof (induction ts vs arbitrary: Ts Vs rule: list_induct2)
  case Nil
  then show ?case by simp
next
  case (Cons t ts v vs)
  from Cons.prems obtain T Ts' where Ts: "Ts = T # Ts'" "f t = Inr T" "map f ts = map Inr Ts'"
    by (cases Ts) auto
  from Cons.prems obtain V Vs' where Vs: "Vs = V # Vs'" "g v = Inr V" "map g vs = map Inr Vs'"
    by (cases Vs) auto
  from Cons.IH[OF Ts(3) Vs(3)] Ts Vs show ?case by simp
qed

text \<open>
  Claim C5. An assignment whose only target is a tuple of \<open>n\<close> elements and whose value
  is a tuple of \<open>n\<close> elements, the elements translating to the texts \<open>Ts\<close> and
  \<open>Vs\<close>, is emitted as the \<open>n\<close> statements \<^verbatim>\<open>T_i = V_i\<close>, in the order of the
  elements, joined by \<^verbatim>\<open>;\n\<close>.
\<close>

theorem tuple_assign_pairwise:
  assumes "length ts = length vs"
      and "map (translate h) ts = map Inr Ts"
      and "map (translate h) vs = map Inr Vs"
  shows "translate h (Assign [Tuple ts] (Tuple vs))
         = Inr (join '';\<newline>'' (map2 (\<lambda>T V. T @ '' = '' @ V) Ts Vs))"
  using assms pairwise_statements[OF assms, of "\<lambda>T V. T @ '' = '' @ V"] by simp

text \<open>The claim's own example: \<^verbatim>\<open>(a, b) = (1, 2)\<close> gives \<^verbatim>\<open>a = 1;\nb = 2\<close>.\<close>

theorem tuple_assign_pairwise_witness:
  "length [Name ''a'', Name ''b''] = length [Num (PyInt 1), Num (PyInt 2)]
   \<and> map (translate insertion_order) [Name ''a'', Name ''b''] = map Inr [''a'', ''b'']
   \<and> map (translate insertion_order) [Num (PyInt 1), Num (PyInt 2)] = map Inr [''1'', ''2'']
   \<and> translate insertion_order (Assign [Tuple [Name ''a'', Name ''b'']] (Tuple [Num (PyInt 1), Num (PyInt 2)]))
       = Inr ''a = 1;\<newline>b = 2''"
proof -
  have l: "length [Name ''a'', Name ''b''] = length [Num (PyInt 1), Num (PyInt 2)]" by simp
  have t: "map (translate insertion_order) [Name ''a'', Name ''b''] = map Inr [''a'', ''b'']"
    by code_simp
  have v: "map (translate insertion_order) [Num (PyInt 1), Num (PyInt 2)] = map Inr [''1'', ''2'']"
    by code_simp
  from tuple_assign_pairwise[OF l t v] l t v show ?thesis by simp
qed

text \<open>
  Claim C6, as the code has it. Take an assignment with a tuple among its targets, and a
  value that is not a tuple or is a tuple of another length. Its translation always fails
  and returns no text. The targets are handled from left to right, so the failure is the
  \<^verbatim>\<open>CompileError\<close> of line 159 or 167 when the targets before that tuple translate
  without error (the assignment with those targets alone succeeds); with a single target
  that is always so. Otherwise the error of the earlier targets is raised instead: the
  error that the assignment with those targets alone fails with.
\<close>

theorem tuple_assign_mismatch:
  assumes "\<not> isinstance_Tuple val \<or> length es \<noteq> length (elts val)"
  shows "(\<exists>e. translate h (Assign (pre @ Tuple es # post) val) = Inl e)
       \<and> ((\<exists>out. translate h (Assign pre val) = Inr out) \<longrightarrow>
            translate h (Assign (pre @ Tuple es # post) val)
            = Inl (CompileError
                    (if isinstance_Tuple val
                     then ''Assigning one tuple to another of different length.''
                     else ''Assigning a non-tuple to a tuple.'')))
       \<and> (\<forall>e. translate h (Assign pre val) = Inl e \<longrightarrow>
            translate h (Assign (pre @ Tuple es # post) val) = Inl e)"
  using assms by (auto simp: map_result_append split: sum.splits)

text \<open>
  The example of the specification: a target of two elements, a value of three. With
  no earlier target there is nothing that could fail first.
\<close>

theorem tuple_assign_mismatch_witness:
  "length [Name ''a'', Name ''b''] \<noteq> length (elts (Tuple [Num (PyInt 1), Num (PyInt 2), Num (PyInt 3)]))
   \<and> translate insertion_order (Assign [] (Tuple [Num (PyInt 1), Num (PyInt 2), Num (PyInt 3)])) = Inr []
   \<and> translate insertion_order
        (Assign [Tuple [Name ''a'', Name ''b'']] (Tuple [Num (PyInt 1), Num (PyInt 2), Num (PyInt 3)]))
       = Inl (CompileError ''Assigning one tuple to another of different length.'')"
  using tuple_assign_mismatch[of "Tuple [Num (PyInt 1), Num (PyInt 2), Num (PyInt 3)]" "[Name ''a'', Name ''b'']"
          insertion_order "[]" "[]"]
  by simp

text \<open>
  Claim C6 as stated fails on a chained assignment: in \<^verbatim>\<open>x[0] = (a, b) = 5\<close> the
  second target is a tuple and the value is not, but the first target is a subscript, which
  the dispatcher has no rule for. The error raised is its \<^verbatim>\<open>KeyError\<close>, not a
  \<^verbatim>\<open>CompileError\<close>.
\<close>

theorem tuple_assign_other_error_counterexample:
  "isinstance_Tuple (Tuple [Name ''a'', Name ''b'']) \<and> \<not> isinstance_Tuple (Num (PyInt 5))
   \<and> translate insertion_order
        (Assign [Other ''Subscript'', Tuple [Name ''a'', Name ''b'']] (Num (PyInt 5))) = Inl KeyError
   \<and> translate insertion_order
        (Assign [Other ''Subscript'', Tuple [Name ''a'', Name ''b'']] (Num (PyInt 5)))
       \<noteq> Inl (CompileError ''Assigning a non-tuple to a tuple.'')"
  by code_simp

section \<open>Declarations\<close>

text \<open>
  Replacing the references to \<^verbatim>\<open>self\<close> by references to \<^verbatim>\<open>this\<close> changes
  nothing in the translation, of any node and by any rule: wherever a reference to
  \<^verbatim>\<open>self\<close> is emitted, what is emitted is \<^verbatim>\<open>this\<close>.
\<close>

lemma self_to_this_tests [simp]:
  "isinstance_If (self_to_this n) = isinstance_If n"
  "isinstance_Tuple (self_to_this n) = isinstance_Tuple n"
  "elts (self_to_this n) = map self_to_this (elts n)"
  "(self_to_this n = Operator Pow_op) = (n = Operator Pow_op)"
  "fn_name (self_to_this n) = fn_name n"
  "fn_args (self_to_this n) = fn_args n"
  "fn_body (self_to_this n) = map self_to_this (fn_body n)"
  by (cases n; simp)+

lemma map_result_map: "map_result f (map g xs) = map_result (\<lambda>x. f (g x)) xs"
  by (induction xs) (auto split: sum.splits)

lemma update_map_values:
  "AList.update k (f v) (map (apsnd f) al) = map (apsnd f) (AList.update k v al)"
  by (induction al) auto

lemma insort_key_map_values:
  "insort_key fst (apsnd f x) (map (apsnd f) ys) = map (apsnd f) (insort_key fst x ys)"
  by (induction ys) auto

lemma insort_rank_map_values:
  "insort_key (\<lambda>kv. h (fst kv)) (apsnd f x) (map (apsnd f) ys)
     = map (apsnd f) (insort_key (\<lambda>kv. h (fst kv)) x ys)"
  by (induction ys) auto

lemma sorted_items_map_values:
  "sorted_items h (map (apsnd f) d) = map (apsnd f) (sorted_items h d)"
proof -
  have 1: "sort_key (\<lambda>kv. h (fst kv)) (map (apsnd f) xs)
             = map (apsnd f) (sort_key (\<lambda>kv. h (fst kv)) xs)" for xs
    by (induction xs) (simp_all add: insort_rank_map_values)
  have 2: "sort_key fst (map (apsnd f) xs) = map (apsnd f) (sort_key fst xs)" for xs
    by (induction xs) (simp_all add: insort_key_map_values)
  show ?thesis by (simp add: sorted_items_def items_def 1 2)
qed

lemma self_to_this_ClassDef:
  "self_to_this (ClassDef name body) = ClassDef name (map class_member_self_to_this body)"
  by (simp add: class_member_self_to_this_def[abs_def])

lemma class_members_self_to_this:
  "class_members (map class_member_self_to_this body)
       (map (apsnd self_to_this) fs0, map (apsnd self_to_this) as0)
   = (case class_members body (fs0, as0) of
        Inl e \<Rightarrow> Inl e
      | Inr (fs, as) \<Rightarrow> Inr (map (apsnd self_to_this) fs, map (apsnd self_to_this) as))"
proof (induction body "(fs0, as0)" arbitrary: fs0 as0 rule: class_members.induct)
  case (2 name args body rest fs1 as1)
  have "AList.update name (FunctionDef name args (map self_to_this body))
          (map (apsnd self_to_this) fs1)
        = map (apsnd self_to_this) (AList.update name (FunctionDef name args body) fs1)"
    using update_map_values[of name self_to_this "FunctionDef name args body" fs1] by simp
  with "2.hyps" show ?case by (simp add: class_member_self_to_this_def)
next
  case (3 targets val rest fs1 as1)
  then show ?case by (simp add: class_member_self_to_this_def update_map_values)
qed (simp_all add: class_member_self_to_this_def)

lemma self_to_this_all:
  shows "translate h (self_to_this n) = translate h n"
    and "translate_body h (map self_to_this body) sep = translate_body h body sep"
    and "translate_module h (map self_to_this body) = translate_module h body"
    and "translate_function h name args (map self_to_this body) im
           = translate_function h name args body im"
    and "translate_return h (map_option self_to_this rv) = translate_return h rv"
    and "translate_lambda h args (self_to_this lbody) = translate_lambda h args lbody"
    and "translate_if h (self_to_this test) (map self_to_this body) (map self_to_this orelse)
           = translate_if h test body orelse"
    and "translate_if_exp h (self_to_this test) (self_to_this ebody) (self_to_this eorelse)
           = translate_if_exp h test ebody eorelse"
    and "translate_bool_op h (self_to_this op) (map self_to_this vals)
           = translate_bool_op h op vals"
    and "translate_bin_op h (self_to_this left) (self_to_this op) (self_to_this right)
           = translate_bin_op h left op right"
    and "translate_unary_op h (self_to_this op) (self_to_this operand)
           = translate_unary_op h op operand"
    and "translate_attribute h (self_to_this v) attr = translate_attribute h v attr"
    and "translate_assign h (map self_to_this targets) (self_to_this v)
           = translate_assign h targets v"
    and "translate_call h (self_to_this func) (map self_to_this args)
           = translate_call h func args"
    and "translate_compare h (self_to_this left) (map self_to_this ops)
             (map self_to_this comparators)
           = translate_compare h left ops comparators"
    and "translate_class h name (map class_member_self_to_this body)
           = translate_class h name body"
proof (induction h n and h body sep and h body and h name args body im and h rv
         and h args lbody and h test body orelse and h test ebody eorelse and h op vals
         and h left op right and h op operand and h v attr and h targets v and h func args
         and h left ops comparators and h name body
       rule: translate_translate_body_translate_module_translate_function_translate_return_translate_lambda_translate_if_translate_if_exp_translate_bool_op_translate_bin_op_translate_unary_op_translate_attribute_translate_assign_translate_call_translate_compare_translate_class.induct)
  case (4 h ident)
  show ?case by (simp add: translate_name_def)
next
  case (5 h name body)
  then show ?case by (simp only: self_to_this_ClassDef translate.simps)
next
  case (21 h body line_separator)
  have "map_result
          (\<lambda>node. if isinstance_If node then translate h node
                  else (case translate h node of Inl e \<Rightarrow> Inl e | Inr t \<Rightarrow> Inr (t @ '';'')))
          (map self_to_this body)
      = map_result
          (\<lambda>node. if isinstance_If node then translate h node
                  else (case translate h node of Inl e \<Rightarrow> Inl e | Inr t \<Rightarrow> Inr (t @ '';''))) body"
    unfolding map_result_map by (rule map_result_cong) (use 21 in auto)
  then show ?case by simp
next
  case (32 h targets v)
  have inner: "map_result
            (\<lambda>(t, v). case translate h v of
                         Inl e \<Rightarrow> Inl e
                       | Inr value_def \<Rightarrow>
                           (case translate h t of
                              Inl e \<Rightarrow> Inl e
                            | Inr target_def \<Rightarrow> Inr (target_def @ '' = '' @ value_def)))
            (zip (map self_to_this (elts x)) (map self_to_this (elts v)))
        = map_result
            (\<lambda>(t, v). case translate h v of
                         Inl e \<Rightarrow> Inl e
                       | Inr value_def \<Rightarrow>
                           (case translate h t of
                              Inl e \<Rightarrow> Inl e
                            | Inr target_def \<Rightarrow> Inr (target_def @ '' = '' @ value_def)))
            (zip (elts x) (elts v))"
    if x: "x \<in> set targets" "isinstance_Tuple x" "isinstance_Tuple v"
       "length (elts x) = length (elts v)" for x
  proof -
    have z: "zip (map self_to_this (elts x)) (map self_to_this (elts v))
               = map (\<lambda>(t, w). (self_to_this t, self_to_this w)) (zip (elts x) (elts v))"
      by (simp add: zip_map_map)
    show ?thesis
      unfolding z map_result_map
    proof (rule map_result_cong[OF refl])
      fix p assume p: "p \<in> set (zip (elts x) (elts v))"
      obtain t w where tw: "p = (t, w)" by (cases p)
      from "32.IH"(1)[OF x(1-3) _ p tw[symmetric]] x(4)
      have 1: "translate h (self_to_this w) = translate h w" by simp
      have 2: "translate h (self_to_this t) = translate h t" if "translate h w = Inr b" for b
        using "32.IH"(2)[OF x(1-3) _ p tw[symmetric] that] x(4) by simp
      from 1 2 show "(case (case p of (t, w) \<Rightarrow> (self_to_this t, self_to_this w)) of
                        (t, v) \<Rightarrow> case translate h v of
                         Inl e \<Rightarrow> Inl e
                       | Inr value_def \<Rightarrow>
                           (case translate h t of
                              Inl e \<Rightarrow> Inl e
                            | Inr target_def \<Rightarrow> Inr (target_def @ '' = '' @ value_def)))
           = (case p of (t, v) \<Rightarrow> case translate h v of
                         Inl e \<Rightarrow> Inl e
                       | Inr value_def \<Rightarrow>
                           (case translate h t of
                              Inl e \<Rightarrow> Inl e
                            | Inr target_def \<Rightarrow> Inr (target_def @ '' = '' @ value_def)))"
        by (auto simp: tw split: sum.splits)
    qed
  qed
  have outer: "translate h (self_to_this v) = translate h v
               \<and> (\<forall>b. translate h v = Inr b \<longrightarrow> translate h (self_to_this x) = translate h x)"
    if "x \<in> set targets" "\<not> isinstance_Tuple x" for x
    using "32.IH"(3,4)[OF that] by blast
  show ?case
    unfolding translate_assign.simps map_result_map
    by (rule arg_cong[where f = "\<lambda>r. case r of Inl e \<Rightarrow> Inl e | Inr s \<Rightarrow> Inr (join '';\<newline>'' (concat s))"],
        rule map_result_cong[OF refl])
       (use inner outer in \<open>auto split: sum.splits\<close>)
next
  case (33 h func args)
  have "map_result (translate h) (map self_to_this args) = map_result (translate h) args"
    unfolding map_result_map by (rule map_result_cong) (use 33 in auto)
  with 33 show ?case by (auto split: sum.splits)
next
  case (34 h left ops comparators)
  show ?case
  proof (cases "length ops = 1 \<and> length comparators = 1")
    case False
    then show ?thesis by auto
  next
    case True
    then have hd: "hd (map self_to_this ops) = self_to_this (hd ops)"
      "hd (map self_to_this comparators) = self_to_this (hd comparators)"
      by (auto simp: hd_map length_Suc_conv)
    from True "34.IH" show ?thesis by (auto simp: hd split: sum.splits)
  qed
next
  case (35 h name body)
  show ?case
  proof (cases "class_members body ([], [])")
    case (Inl e)
    with class_members_self_to_this[of body "[]" "[]"] show ?thesis by simp
  next
    case (Inr b)
    obtain fs as where b: "b = (fs, as)" by (cases b)
    from class_members_self_to_this[of body "[]" "[]"] Inr b
    have cm: "class_members (map class_member_self_to_this body) ([], [])
                = Inr (map (apsnd self_to_this) fs, map (apsnd self_to_this) as)"
      by simp
    have mo: "map_of (map (apsnd self_to_this) fs) ''__init__''
                = map_option self_to_this (map_of fs ''__init__'')"
      by (induction fs) auto
    have init: "(case map_of (map (apsnd self_to_this) fs) ''__init__'' of
                   Some f \<Rightarrow> translate_function h (fn_name f) (fn_args f) (fn_body f) True
                 | None \<Rightarrow> Inr ''function () {}'')
              = (case map_of fs ''__init__'' of
                   Some f \<Rightarrow> translate_function h (fn_name f) (fn_args f) (fn_body f) True
                 | None \<Rightarrow> Inr ''function () {}'')"
      using "35.IH"(1)[OF Inr b[symmetric]]
      by (auto simp: mo simp del: translate_function.simps split: option.splits)
    have assigns: "map_result
                       (\<lambda>(aname, anode).
                          case translate h anode of
                            Inl e \<Rightarrow> Inl e
                          | Inr t \<Rightarrow> Inr (CHR 0x27 # aname @ ''': '' @ t))
                       (map (apsnd self_to_this) (sorted_items h as))
                = map_result
                       (\<lambda>(aname, anode).
                          case translate h anode of
                            Inl e \<Rightarrow> Inl e
                          | Inr t \<Rightarrow> Inr (CHR 0x27 # aname @ ''': '' @ t))
                       (sorted_items h as)"
      if "(case map_of fs ''__init__'' of
                   Some f \<Rightarrow> translate_function h (fn_name f) (fn_args f) (fn_body f) True
                 | None \<Rightarrow> Inr ''function () {}'') = Inr ba" for ba
      unfolding map_result_map
      by (rule map_result_cong[OF refl]) (use "35.IH"(2)[OF Inr b[symmetric] that] in auto)
    have flt: "filter (\<lambda>(fname, fnode). fname \<noteq> ''__init__'')
                 (map (apsnd self_to_this) (sorted_items h fs))
             = map (apsnd self_to_this)
                 (filter (\<lambda>(fname, fnode). fname \<noteq> ''__init__'') (sorted_items h fs))"
      by (induction "sorted_items h fs") (auto simp: filter_map comp_def case_prod_unfold)
    have methods: "map_result
                            (\<lambda>(fname, fnode).
                               case translate_function h (fn_name fnode) (fn_args fnode)
                                      (fn_body fnode) True of
                                 Inl e \<Rightarrow> Inl e
                               | Inr t \<Rightarrow> Inr (CHR 0x27 # fname @ ''': '' @ t))
                            (map (apsnd self_to_this)
                               (filter (\<lambda>(fname, fnode). fname \<noteq> ''__init__'')
                                  (sorted_items h fs)))
                 = map_result
                            (\<lambda>(fname, fnode).
                               case translate_function h (fn_name fnode) (fn_args fnode)
                                      (fn_body fnode) True of
                                 Inl e \<Rightarrow> Inl e
                               | Inr t \<Rightarrow> Inr (CHR 0x27 # fname @ ''': '' @ t))
                            (filter (\<lambda>(fname, fnode). fname \<noteq> ''__init__'')
                               (sorted_items h fs))"
      if "(case map_of fs ''__init__'' of
                   Some f \<Rightarrow> translate_function h (fn_name f) (fn_args f) (fn_body f) True
                 | None \<Rightarrow> Inr ''function () {}'') = Inr ba"
         "map_result
                       (\<lambda>(aname, anode).
                          case translate h anode of
                            Inl e \<Rightarrow> Inl e
                          | Inr t \<Rightarrow> Inr (CHR 0x27 # aname @ ''': '' @ t))
                       (sorted_items h as) = Inr bb" for ba bb
      unfolding map_result_map
      by (rule map_result_cong[OF refl])
         (use "35.IH"(3)[OF Inr b[symmetric] that] in
            \<open>auto simp del: translate_function.simps\<close>)
    show ?thesis
      using init assigns methods
      by (auto simp: Inr b cm sorted_items_map_values flt
               simp del: translate_function.simps split: sum.splits)
  qed
qed (auto simp: Let_def translate_tuple_def simp del: translate_body.simps
      split: sum.splits option.splits list.splits)

text \<open>
  Where the translator drops a node, a reference in it leaves no text at all: the elements
  of a tuple literal, and the operands of a boolean operation after the second.
\<close>

lemma dropped_references:
  "translate_body insertion_order [Return (Some (Tuple [Name ''self'', Name ''x'']))] ''\<newline>''
     = Inr ''return ?tuple?;''"
  "translate_body insertion_order
     [Expr (BoolOp (Operator And) [Name ''a'', Name ''b'', Name ''self''])] ''\<newline>''
     = Inr ''(a && b);''"
  by code_simp+

text \<open>
  Claim C8, as the code has it. A function with the parameters \<open>first, p1, ..., pk\<close>,
  translated as an instance method, is emitted with the parameter list \<open>p1, ..., pk\<close>:
  the first parameter is dropped, the others keep their order. The body is translated by
  the ordinary rules, which know one name only: every reference to \<^verbatim>\<open>self\<close> that the
  body emits is emitted as \<^verbatim>\<open>this\<close>, so that the method translates to the same text
  as the method whose body has \<^verbatim>\<open>this\<close> in place of every reference to
  \<^verbatim>\<open>self\<close>. A reference to any other identifier is emitted as it is, whatever the
  first parameter was called.
\<close>

theorem method_parameters_and_self:
  assumes "translate_body h body ''\<newline>'' = Inr body_def"
  shows "translate_function h name (first # map Name params) body True
           = Inr (''function ('' @ join '', '' params @ '') { '' @ body_def @ '' }'')
       \<and> translate_function h name (first # map Name params) (map self_to_this body) True
           = Inr (''function ('' @ join '', '' params @ '') { '' @ body_def @ '' }'')
       \<and> translate h (Name ident) = Inr (if ident = ''self'' then ''this'' else ident)"
proof -
  have "map_result arg_id (map Name params) = Inr params"
    by (simp add: map_result_Inr_iff)
  with assms have "translate_function h name (first # map Name params) body True
           = Inr (''function ('' @ join '', '' params @ '') { '' @ body_def @ '' }'')"
    by simp
  then show ?thesis
    by (simp only: self_to_this_all(4)) (simp add: translate_name_def)
qed

text \<open>
  The method \<^verbatim>\<open>def f(self, x, y): return self.y\<close>, and the same method with
  \<^verbatim>\<open>this\<close> written for \<^verbatim>\<open>self\<close> in its body.
\<close>

theorem method_parameters_and_self_witness:
  "translate_body insertion_order [Return (Some (Attribute (Name ''self'') ''y''))] ''\<newline>''
     = Inr ''return this.y;''
   \<and> map self_to_this [Return (Some (Attribute (Name ''self'') ''y''))]
     = [Return (Some (Attribute (Name ''this'') ''y''))]
   \<and> translate_function insertion_order ''f'' (Name ''self'' # map Name [''x'', ''y''])
        [Return (Some (Attribute (Name ''self'') ''y''))] True
       = Inr ''function (x, y) { return this.y; }''
   \<and> translate_function insertion_order ''f'' (Name ''self'' # map Name [''x'', ''y''])
        [Return (Some (Attribute (Name ''this'') ''y''))] True
       = Inr ''function (x, y) { return this.y; }''"
proof -
  have b: "translate_body insertion_order [Return (Some (Attribute (Name ''self'') ''y''))]
             ''\<newline>'' = Inr ''return this.y;''"
    by code_simp
  have r: "map self_to_this [Return (Some (Attribute (Name ''self'') ''y''))]
             = [Return (Some (Attribute (Name ''this'') ''y''))]"
    by simp
  from method_parameters_and_self[OF b, of "''f''" "Name ''self''" "[''x'', ''y'']"] b r
  show ?thesis by simp
qed

text \<open>
  Claim C8 as stated fails when the first parameter is not called \<^verbatim>\<open>self\<close>: the
  method \<^verbatim>\<open>def f(me, x): return me.y\<close> loses its parameter \<^verbatim>\<open>me\<close>, and the body
  still refers to \<^verbatim>\<open>me\<close>.
\<close>

theorem first_parameter_not_rewritten_counterexample:
  "translate_function insertion_order ''f'' [Name ''me'', Name ''x'']
     [Return (Some (Attribute (Name ''me'') ''y''))] True
   = Inr ''function (x) { return me.y; }''"
  by code_simp

section \<open>Dictionaries and determinism\<close>

text \<open>
  The parameter \<open>h\<close> leaves no iteration order out: every listing of the entries of a
  dictionary, in whatever order, is \<open>items h d\<close> for some \<open>h\<close>.
\<close>

lemma filter_same_key:
  "distinct (map fst l) \<Longrightarrow> k \<in> set l \<Longrightarrow> filter (\<lambda>x. fst x = fst k) l = [k]"
proof (induction l)
  case Nil
  then show ?case by simp
next
  case (Cons p l)
  show ?case
  proof (cases "k = p")
    case True
    with Cons.prems have "filter (\<lambda>x. fst x = fst k) l = []"
      by (auto simp: filter_empty_conv image_iff)
    with True show ?thesis by simp
  next
    case False
    with Cons.prems have "k \<in> set l" "fst p \<noteq> fst k" by (auto simp: image_iff)
    with Cons show ?thesis by simp
  qed
qed

lemma items_any_order:
  assumes "distinct (map fst d)" and "mset p = mset d"
  shows "\<exists>h. items h d = p"
proof -
  let ?ks = "map fst p"
  define h where "h k = the (map_of (zip ?ks [0..<length p]) k)" for k
  from assms have "mset ?ks = mset (map fst d)" by simp
  with assms(1) have dp: "distinct ?ks" using mset_eq_imp_distinct_iff by blast
  have hi: "h (fst (p ! i)) = i" if "i < length p" for i
    using map_of_zip_nth[of ?ks "[0..<length p]" i] dp that by (simp add: h_def)
  have "map (\<lambda>kv. h (fst kv)) p = [0..<length p]"
    by (rule nth_equalityI) (simp_all add: hi)
  then have srt: "sorted (map (\<lambda>kv. h (fst kv)) p)" by simp
  have inj: "fst x = fst k" if "x \<in> set p" "k \<in> set p" "h (fst k) = h (fst x)" for x k
  proof -
    from that(1) obtain i where i: "i < length p" "x = p ! i" by (auto simp: in_set_conv_nth)
    from that(2) obtain j where j: "j < length p" "k = p ! j" by (auto simp: in_set_conv_nth)
    from that(3) hi[OF i(1)] hi[OF j(1)] i j have "i = j" by simp
    with i j show ?thesis by simp
  qed
  from assms(2) have sets: "set p = set d" by (rule mset_eq_setD)
  have flt: "filter (\<lambda>x. h (fst k) = h (fst x)) p = filter (\<lambda>x. h (fst k) = h (fst x)) d"
    if "k \<in> set p" for k
  proof -
    have eq: "h (fst k) = h (fst x) \<longleftrightarrow> fst x = fst k" if "x \<in> set p" for x
      using inj[OF that \<open>k \<in> set p\<close>] by auto
    have "filter (\<lambda>x. h (fst k) = h (fst x)) p = filter (\<lambda>x. fst x = fst k) p"
      by (rule filter_cong[OF refl]) (rule eq)
    also have "\<dots> = [k]" using dp that by (rule filter_same_key)
    also have "\<dots> = filter (\<lambda>x. fst x = fst k) d"
      using assms(1) that sets by (simp add: filter_same_key)
    also have "\<dots> = filter (\<lambda>x. h (fst k) = h (fst x)) d"
      by (rule filter_cong[OF refl]) (use eq sets in simp)
    finally show ?thesis .
  qed
  from properties_for_sort_key[OF assms(2) flt srt] have "items h d = p"
    by (simp add: items_def)
  then show ?thesis by blast
qed

text \<open>
  A dictionary has distinct keys, so sorting its entries by key has one possible result,
  whatever order the entries were listed in: the keys in ascending order, each with its
  value.
\<close>

lemma alist_as_map:
  "distinct (map fst l) \<Longrightarrow> map (\<lambda>k. (k, the (map_of l k))) (map fst l) = l"
proof (induction l)
  case Nil
  then show ?case by simp
next
  case (Cons p l)
  then have "map (\<lambda>k. (k, the (map_of (p # l) k))) (map fst l)
           = map (\<lambda>k. (k, the (map_of l k))) (map fst l)"
    by (intro map_cong) (auto simp: image_iff)
  with Cons show ?case by (cases p) simp
qed


lemma sorted_items_canonical:
  assumes "distinct (map fst d)"
  shows "sorted_items h d = map (\<lambda>k. (k, the (map_of d k))) (sorted_list_of_set (fst ` set d))"
proof -
  let ?l = "sorted_items h d"
  have ms: "mset ?l = mset d" by (simp add: sorted_items_def items_def)
  then have "mset (map fst ?l) = mset (map fst d)" by simp
  with assms have dist: "distinct (map fst ?l)" using mset_eq_imp_distinct_iff by blast
  have srt: "sorted (map fst ?l)" by (simp add: sorted_items_def)
  have st: "set ?l = set d" by simp
  from srt dist have "sorted_list_of_set (set (map fst ?l)) = map fst ?l"
    by (rule sorted_list_of_set.idem_if_sorted_distinct)
  with st have keys: "map fst ?l = sorted_list_of_set (fst ` set d)" by simp
  from dist assms st have "map_of ?l = map_of d" by (simp add: map_of_inject_set)
  with alist_as_map[OF dist] keys show ?thesis by simp
qed

lemma sorted_items_order_free:
  "distinct (map fst d) \<Longrightarrow> sorted_items h d = sorted_items h' d"
  by (simp add: sorted_items_canonical)

lemma class_members_distinct:
  assumes "class_members body (fs0, as0) = Inr (fs, as)"
      and "distinct (map fst fs0)" and "distinct (map fst as0)"
  shows "distinct (map fst fs) \<and> distinct (map fst as)"
  using assms
proof (induction body "(fs0, as0)" arbitrary: fs0 as0 rule: class_members.induct)
  case (2 name args body rest fs1 as1)
  from "2.prems"
  have "class_members rest (AList.update name (FunctionDef name args body) fs1, as1) = Inr (fs, as)"
    by simp
  from "2.hyps"[OF this] "2.prems" show ?case by (simp add: distinct_update)
next
  case (3 targets val rest fs1 as1)
  from "3.prems" have len: "length targets = 1" and nm: "isinstance_Name (hd targets)"
    and run: "class_members rest (fs1, AList.update (name_id (hd targets)) val as1) = Inr (fs, as)"
    by (auto split: if_splits)
  from "3.hyps"[OF _ _ run] len nm "3.prems" show ?case by (simp add: distinct_update)
qed auto


text \<open>
  The translation does not depend on the order of dictionary iteration. The proof follows
  the recursion of the translator; the one rule that iterates over dictionaries,
  \<^verbatim>\<open>translate_class\<close>, sorts what it gets.
\<close>

lemma order_free_all:
  fixes h' :: "string \<Rightarrow> nat"
  shows "translate h n = translate h' n"
    and "translate_body h body sep = translate_body h' body sep"
    and "translate_module h body = translate_module h' body"
    and "translate_function h name args body im = translate_function h' name args body im"
    and "translate_return h rv = translate_return h' rv"
    and "translate_lambda h args lbody = translate_lambda h' args lbody"
    and "translate_if h test body orelse = translate_if h' test body orelse"
    and "translate_if_exp h test ebody eorelse = translate_if_exp h' test ebody eorelse"
    and "translate_bool_op h op vals = translate_bool_op h' op vals"
    and "translate_bin_op h left op right = translate_bin_op h' left op right"
    and "translate_unary_op h op operand = translate_unary_op h' op operand"
    and "translate_attribute h v attr = translate_attribute h' v attr"
    and "translate_assign h targets v = translate_assign h' targets v"
    and "translate_call h func args = translate_call h' func args"
    and "translate_compare h left ops comparators = translate_compare h' left ops comparators"
    and "translate_class h name body = translate_class h' name body"
proof (induction h n and h body sep and h body and h name args body im and h rv
         and h args lbody and h test body orelse and h test ebody eorelse and h op vals
         and h left op right and h op operand and h v attr and h targets v and h func args
         and h left ops comparators and h name body
       rule: translate_translate_body_translate_module_translate_function_translate_return_translate_lambda_translate_if_translate_if_exp_translate_bool_op_translate_bin_op_translate_unary_op_translate_attribute_translate_assign_translate_call_translate_compare_translate_class.induct)
  case (21 h body line_separator)
  have "map_result
          (\<lambda>node. if isinstance_If node then translate h node
                  else (case translate h node of Inl e \<Rightarrow> Inl e | Inr t \<Rightarrow> Inr (t @ '';''))) body
      = map_result
          (\<lambda>node. if isinstance_If node then translate h' node
                  else (case translate h' node of Inl e \<Rightarrow> Inl e | Inr t \<Rightarrow> Inr (t @ '';''))) body"
    by (rule map_result_cong) (use 21 in auto)
  then show ?case by simp
next
  case (32 h targets v)
  have inner: "map_result
            (\<lambda>(t, v). case translate h v of
                         Inl e \<Rightarrow> Inl e
                       | Inr value_def \<Rightarrow>
                           (case translate h t of
                              Inl e \<Rightarrow> Inl e
                            | Inr target_def \<Rightarrow> Inr (target_def @ '' = '' @ value_def)))
            (zip (elts x) (elts v))
        = map_result
            (\<lambda>(t, v). case translate h' v of
                         Inl e \<Rightarrow> Inl e
                       | Inr value_def \<Rightarrow>
                           (case translate h' t of
                              Inl e \<Rightarrow> Inl e
                            | Inr target_def \<Rightarrow> Inr (target_def @ '' = '' @ value_def)))
            (zip (elts x) (elts v))"
    if "x \<in> set targets" "isinstance_Tuple x" "isinstance_Tuple v"
       "length (elts x) = length (elts v)" for x
  proof (rule map_result_cong[OF refl])
    fix p assume p: "p \<in> set (zip (elts x) (elts v))"
    obtain t w where tw: "p = (t, w)" by (cases p)
    from "32.IH"(1)[OF that(1-3) _ p tw[symmetric]] that(4)
    have 1: "translate h w = translate h' w" by simp
    have 2: "translate h t = translate h' t" if "translate h w = Inr b" for b
      using "32.IH"(2)[OF \<open>x \<in> set targets\<close> \<open>isinstance_Tuple x\<close> \<open>isinstance_Tuple v\<close> _ p tw[symmetric] that]
        \<open>length (elts x) = length (elts v)\<close> by simp
    from 1 2 show "(case p of (t, v) \<Rightarrow> case translate h v of
                         Inl e \<Rightarrow> Inl e
                       | Inr value_def \<Rightarrow>
                           (case translate h t of
                              Inl e \<Rightarrow> Inl e
                            | Inr target_def \<Rightarrow> Inr (target_def @ '' = '' @ value_def)))
           = (case p of (t, v) \<Rightarrow> case translate h' v of
                         Inl e \<Rightarrow> Inl e
                       | Inr value_def \<Rightarrow>
                           (case translate h' t of
                              Inl e \<Rightarrow> Inl e
                            | Inr target_def \<Rightarrow> Inr (target_def @ '' = '' @ value_def)))"
      by (auto simp: tw split: sum.splits)
  qed
  have outer: "translate h v = translate h' v
               \<and> (\<forall>b. translate h v = Inr b \<longrightarrow> translate h x = translate h' x)"
    if "x \<in> set targets" "\<not> isinstance_Tuple x" for x
    using "32.IH"(3,4)[OF that] by blast
  show ?case
    unfolding translate_assign.simps
    by (rule arg_cong[where f = "\<lambda>r. case r of Inl e \<Rightarrow> Inl e | Inr s \<Rightarrow> Inr (join '';\<newline>'' (concat s))"],
        rule map_result_cong[OF refl])
       (use inner outer in \<open>auto split: sum.splits\<close>)
next
  case (33 h func args)
  have "map_result (translate h) args = map_result (translate h') args"
    by (rule map_result_cong) (use 33 in auto)
  with 33 show ?case by (auto split: sum.splits)
next
  case (35 h name body)
  show ?case
  proof (cases "class_members body ([], [])")
    case (Inl e)
    then show ?thesis by simp
  next
    case (Inr b)
    obtain fs as where b: "b = (fs, as)" by (cases b)
    from class_members_distinct[OF Inr[unfolded b]]
    have dist: "distinct (map fst fs)" "distinct (map fst as)" by simp_all
    have ord: "sorted_items h' fs = sorted_items h fs" "sorted_items h' as = sorted_items h as"
      using dist by (simp_all add: sorted_items_canonical)
    have init: "(case map_of fs ''__init__'' of
                   Some f \<Rightarrow> translate_function h (fn_name f) (fn_args f) (fn_body f) True
                 | None \<Rightarrow> Inr ''function () {}'')
              = (case map_of fs ''__init__'' of
                   Some f \<Rightarrow> translate_function h' (fn_name f) (fn_args f) (fn_body f) True
                 | None \<Rightarrow> Inr ''function () {}'')"
      using "35.IH"(1)[OF Inr b[symmetric]] by (auto split: option.splits)
    have assigns: "map_result
                       (\<lambda>(aname, anode).
                          case translate h anode of
                            Inl e \<Rightarrow> Inl e
                          | Inr t \<Rightarrow> Inr (CHR 0x27 # aname @ ''': '' @ t))
                       (sorted_items h as)
                = map_result
                       (\<lambda>(aname, anode).
                          case translate h' anode of
                            Inl e \<Rightarrow> Inl e
                          | Inr t \<Rightarrow> Inr (CHR 0x27 # aname @ ''': '' @ t))
                       (sorted_items h as)"
      if "(case map_of fs ''__init__'' of
                   Some f \<Rightarrow> translate_function h (fn_name f) (fn_args f) (fn_body f) True
                 | None \<Rightarrow> Inr ''function () {}'') = Inr ba" for ba
      by (rule map_result_cong[OF refl]) (use "35.IH"(2)[OF Inr b[symmetric] that] in auto)
    have methods: "map_result
                            (\<lambda>(fname, fnode).
                               case translate_function h (fn_name fnode) (fn_args fnode)
                                      (fn_body fnode) True of
                                 Inl e \<Rightarrow> Inl e
                               | Inr t \<Rightarrow> Inr (CHR 0x27 # fname @ ''': '' @ t))
                            (filter (\<lambda>(fname, fnode). fname \<noteq> ''__init__'')
                               (sorted_items h fs))
                 = map_result
                            (\<lambda>(fname, fnode).
                               case translate_function h' (fn_name fnode) (fn_args fnode)
                                      (fn_body fnode) True of
                                 Inl e \<Rightarrow> Inl e
                               | Inr t \<Rightarrow> Inr (CHR 0x27 # fname @ ''': '' @ t))
                            (filter (\<lambda>(fname, fnode). fname \<noteq> ''__init__'')
                               (sorted_items h fs))"
      if "(case map_of fs ''__init__'' of
                   Some f \<Rightarrow> translate_function h (fn_name f) (fn_args f) (fn_body f) True
                 | None \<Rightarrow> Inr ''function () {}'') = Inr ba"
         "map_result
                       (\<lambda>(aname, anode).
                          case translate h anode of
                            Inl e \<Rightarrow> Inl e
                          | Inr t \<Rightarrow> Inr (CHR 0x27 # aname @ ''': '' @ t))
                       (sorted_items h as) = Inr bb" for ba bb
      by (rule map_result_cong[OF refl]) (use "35.IH"(3)[OF Inr b[symmetric] that] in auto)
    show ?thesis
      using init assigns methods
      by (auto simp: Inr b ord simp del: translate_function.simps split: sum.splits)
  qed
qed (auto simp: Let_def simp del: translate_body.simps split: sum.splits option.splits list.splits)

text \<open>
  Claim C9. Two runs of the translator on the same tree return the same text, or the same
  error. Nothing in the source reads a clock, a random source or mutable state, and the
  dispatch table is built afresh by every call of \<^verbatim>\<open>translate\<close>; what may differ
  between two runs is the order in which the two dictionaries of \<^verbatim>\<open>translate_class\<close>
  are iterated, which is the parameter \<open>h\<close> of the model. So: for any two iteration
  orders the results are equal.
\<close>

theorem translate_deterministic: "translate h tree = translate h' tree"
  by (rule order_free_all(1))

section \<open>Classes\<close>

text \<open>
  The two dictionaries that the first loop of \<^verbatim>\<open>translate_class\<close> builds, read in
  terms of the members of the class: a name is bound to the last member of that name, and
  the sorted entries are the names in ascending order, each once.
\<close>

lemma class_members_maps:
  assumes "class_members body (fs0, as0) = Inr (fs, as)"
  shows "map_of fs = map_of (rev (function_members body) @ fs0)
       \<and> map_of as = map_of (rev (assign_members body) @ as0)"
  using assms
proof (induction body "(fs0, as0)" arbitrary: fs0 as0 rule: class_members.induct)
  case (2 name args body rest fs1 as1)
  from "2.prems"
  have "class_members rest (AList.update name (FunctionDef name args body) fs1, as1) = Inr (fs, as)"
    by simp
  from "2.hyps"[OF this] show ?case by (simp add: update_conv')
next
  case (3 targets val rest fs1 as1)
  from "3.prems" have len: "length targets = 1" and nm: "isinstance_Name (hd targets)"
    and run: "class_members rest (fs1, AList.update (name_id (hd targets)) val as1) = Inr (fs, as)"
    by (auto split: if_splits)
  from "3.hyps"[OF _ _ run] len nm show ?case by (simp add: update_conv')
qed auto

lemma class_members_dicts:
  assumes "class_members body ([], []) = Inr (fs, as)"
  shows "sorted_items h fs
           = map (\<lambda>k. (k, the (last_member (function_members body) k)))
               (member_names (function_members body))"
    and "sorted_items h as
           = map (\<lambda>k. (k, the (last_member (assign_members body) k)))
               (member_names (assign_members body))"
    and "map_of fs = last_member (function_members body)"
proof -
  from class_members_maps[OF assms]
  have m: "map_of fs = map_of (rev (function_members body))"
          "map_of as = map_of (rev (assign_members body))" by simp_all
  from class_members_distinct[OF assms]
  have d: "distinct (map fst fs)" "distinct (map fst as)" by simp_all
  have "fst ` set fs = dom (map_of fs)" by (simp add: dom_map_of_conv_image_fst)
  also have "\<dots> = set (map fst (function_members body))"
    by (simp add: m dom_map_of_conv_image_fst)
  finally have kf: "fst ` set fs = set (map fst (function_members body))" .
  have "fst ` set as = dom (map_of as)" by (simp add: dom_map_of_conv_image_fst)
  also have "\<dots> = set (map fst (assign_members body))"
    by (simp add: m dom_map_of_conv_image_fst)
  finally have ka: "fst ` set as = set (map fst (assign_members body))" .
  show "sorted_items h fs
           = map (\<lambda>k. (k, the (last_member (function_members body) k)))
               (member_names (function_members body))"
    unfolding sorted_items_canonical[OF d(1)] kf m member_names_def last_member_def
      sorted_list_of_set_sort_remdups ..
  show "sorted_items h as
           = map (\<lambda>k. (k, the (last_member (assign_members body) k)))
               (member_names (assign_members body))"
    unfolding sorted_items_canonical[OF d(2)] ka m member_names_def last_member_def
      sorted_list_of_set_sort_remdups ..
  show "map_of fs = last_member (function_members body)"
    by (simp add: m last_member_def fun_eq_iff)
qed

lemma table_entries:
  assumes "map_result (\<lambda>(k, v). case tr v of Inl e \<Rightarrow> Inl e | Inr t \<Rightarrow> Inr (table_entry k t))
             (map (\<lambda>k. (k, g k)) names) = Inr defs"
  shows "\<exists>ts. map (\<lambda>k. tr (g k)) names = map Inr ts \<and> defs = map2 table_entry names ts"
  using assms
proof (induction names arbitrary: defs)
  case Nil
  then show ?case by simp
next
  case (Cons k names)
  from Cons.prems obtain t rest where t: "tr (g k) = Inr t"
    and rest: "map_result (\<lambda>(k, v). case tr v of Inl e \<Rightarrow> Inl e | Inr t \<Rightarrow> Inr (table_entry k t))
                 (map (\<lambda>k. (k, g k)) names) = Inr rest"
    and defs: "defs = table_entry k t # rest"
    by (auto split: sum.splits)
  from Cons.IH[OF rest] obtain ts where "map (\<lambda>k. tr (g k)) names = map Inr ts"
    "rest = map2 table_entry names ts" by blast
  with t defs have "map (\<lambda>k. tr (g k)) (k # names) = map Inr (t # ts)
                  \<and> defs = map2 table_entry (k # names) (t # ts)" by simp
  then show ?case by blast
qed

text \<open>
  Claim C1, as the code has it. When a class translates, its text is
  \<^verbatim>\<open>var C = <constructor>;\<close>, a newline, and \<^verbatim>\<open>C.prototype = { <entries> }\<close>, where
  \<^item> the constructor is the empty function \<^verbatim>\<open>function () {}\<close> when no function member is
    called \<^verbatim>\<open>__init__\<close>, and otherwise the last function member of that name translated
    as an instance method;
  \<^item> the entries, joined by a comma and a newline, are one entry \<^verbatim>\<open>'name': value\<close> for
    each name of a simple assignment, then one for each name of a function member other
    than \<^verbatim>\<open>__init__\<close>; each group is in ascending order of the names, whatever the
    order of the members in the source;
  \<^item> where several members of a group have the same name, the name has a single entry, and
    its value is that of the last of them.
\<close>

theorem class_prototype_table:
  assumes "translate h (ClassDef cname body) = Inr out"
  shows "\<exists>ctor adefs mdefs.
           (''__init__'' \<notin> fst ` set (function_members body) \<longrightarrow> ctor = ''function () {}'')
         \<and> (\<forall>f. last_member (function_members body) ''__init__'' = Some f
                \<longrightarrow> translate_method h f = Inr ctor)
         \<and> map (\<lambda>k. translate h (the (last_member (assign_members body) k)))
               (member_names (assign_members body)) = map Inr adefs
         \<and> map (\<lambda>k. translate_method h (the (last_member (function_members body) k)))
               (filter (\<lambda>k. k \<noteq> ''__init__'') (member_names (function_members body)))
             = map Inr mdefs
         \<and> out = ''var '' @ cname @ '' = '' @ ctor @ '';\<newline>'' @ cname @ ''.prototype = { ''
                 @ join '',\<newline>''
                     (map2 table_entry (member_names (assign_members body)) adefs
                      @ map2 table_entry
                          (filter (\<lambda>k. k \<noteq> ''__init__'') (member_names (function_members body)))
                          mdefs)
                 @ '' }''"
proof -
  from assms obtain fs as where cm: "class_members body ([], []) = Inr (fs, as)"
    by (auto split: sum.splits)
  note d = class_members_dicts(1)[OF cm, of h] class_members_dicts(2)[OF cm, of h]
    class_members_dicts(3)[OF cm]
  let ?A = "member_names (assign_members body)"
  let ?M = "filter (\<lambda>k. k \<noteq> ''__init__'') (member_names (function_members body))"
  have flt: "filter (\<lambda>(fname, fnode). fname \<noteq> ''__init__'') (sorted_items h fs)
           = map (\<lambda>k. (k, the (last_member (function_members body) k))) ?M"
    unfolding d(1) filter_map by (simp add: comp_def)
  from assms cm obtain ctor adefs mdefs where
    c0: "(case map_of fs ''__init__'' of
              Some f \<Rightarrow> translate_function h (fn_name f) (fn_args f) (fn_body f) True
            | None \<Rightarrow> Inr ''function () {}'') = Inr ctor"
    and a0: "map_result
               (\<lambda>(aname, anode).
                  case translate h anode of
                    Inl e \<Rightarrow> Inl e
                  | Inr t \<Rightarrow> Inr (CHR 0x27 # aname @ ''': '' @ t))
               (sorted_items h as) = Inr adefs"
    and m0: "map_result
               (\<lambda>(fname, fnode).
                  case translate_function h (fn_name fnode) (fn_args fnode) (fn_body fnode) True of
                    Inl e \<Rightarrow> Inl e
                  | Inr t \<Rightarrow> Inr (CHR 0x27 # fname @ ''': '' @ t))
               (filter (\<lambda>(fname, fnode). fname \<noteq> ''__init__'') (sorted_items h fs))
             = Inr mdefs"
    and out: "out = ''var '' @ cname @ '' = '' @ ctor @ '';\<newline>'' @ cname @ ''.prototype = { ''
                 @ join '',\<newline>'' (adefs @ mdefs) @ '' }''"
    by (auto simp del: translate_function.simps split: sum.splits)
  have ctor: "(case last_member (function_members body) ''__init__'' of
              Some f \<Rightarrow> translate_method h f
            | None \<Rightarrow> Inr ''function () {}'') = Inr ctor"
    using c0 unfolding d(3) translate_method_def .
  have ad: "map_result
               (\<lambda>(k, v). case translate h v of Inl e \<Rightarrow> Inl e | Inr t \<Rightarrow> Inr (table_entry k t))
               (map (\<lambda>k. (k, the (last_member (assign_members body) k))) ?A) = Inr adefs"
    using a0 unfolding d(2) table_entry_def .
  have md: "map_result
               (\<lambda>(k, v). case translate_method h v of
                            Inl e \<Rightarrow> Inl e | Inr t \<Rightarrow> Inr (table_entry k t))
               (map (\<lambda>k. (k, the (last_member (function_members body) k))) ?M) = Inr mdefs"
    using m0 unfolding flt table_entry_def translate_method_def .
  from table_entries[OF ad] obtain ats where
    ats: "map (\<lambda>k. translate h (the (last_member (assign_members body) k))) ?A = map Inr ats"
         "adefs = map2 table_entry ?A ats" by blast
  from table_entries[OF md] obtain mts where
    mts: "map (\<lambda>k. translate_method h (the (last_member (function_members body) k))) ?M
            = map Inr mts"
         "mdefs = map2 table_entry ?M mts" by blast
  have none: "''__init__'' \<notin> fst ` set (function_members body) \<longrightarrow> ctor = ''function () {}''"
  proof
    assume "''__init__'' \<notin> fst ` set (function_members body)"
    then have "last_member (function_members body) ''__init__'' = None"
      by (simp add: last_member_def map_of_eq_None_iff)
    with ctor show "ctor = ''function () {}''" by simp
  qed
  have some: "\<forall>f. last_member (function_members body) ''__init__'' = Some f
                \<longrightarrow> translate_method h f = Inr ctor"
    using ctor by auto
  from none some ats mts out show ?thesis by blast
qed

text \<open>
  The example of the specification, with the two assignments in the other order in the
  source: the entries still come out as \<^verbatim>\<open>a\<close>, \<^verbatim>\<open>z\<close>, \<^verbatim>\<open>b\<close>, and the
  constructor is the empty function.
\<close>

theorem class_prototype_table_witness:
  "translate insertion_order
     (ClassDef ''C''
        [FunctionDef ''b'' [Name ''self''] [Return (Some (Name ''self''))],
         Assign [Name ''z''] (Num (PyInt 2)),
         Assign [Name ''a''] (Num (PyInt 1))])
   = Inr ''var C = function () {};\<newline>C.prototype = { 'a': 1,\<newline>'z': 2,\<newline>'b': function () { return this; } }''
   \<and> (\<exists>adefs mdefs.
         map (translate insertion_order) [Num (PyInt 1), Num (PyInt 2)] = map Inr adefs
       \<and> ''var C = function () {};\<newline>C.prototype = { 'a': 1,\<newline>'z': 2,\<newline>'b': function () { return this; } }''
           = ''var '' @ ''C'' @ '' = '' @ ''function () {}'' @ '';\<newline>'' @ ''C'' @ ''.prototype = { ''
             @ join '',\<newline>'' (map2 table_entry [''a'', ''z''] adefs @ map2 table_entry [''b''] mdefs)
             @ '' }'')"
proof -
  let ?body = "[FunctionDef ''b'' [Name ''self''] [Return (Some (Name ''self''))],
                Assign [Name ''z''] (Num (PyInt 2)), Assign [Name ''a''] (Num (PyInt 1))]"
  let ?out = "''var C = function () {};\<newline>C.prototype = { 'a': 1,\<newline>'z': 2,\<newline>'b': function () { return this; } }''"
  have t: "translate insertion_order (ClassDef ''C'' ?body) = Inr ?out"
    by code_simp
  have an: "member_names (assign_members ?body) = [''a'', ''z'']" by code_simp
  have mn: "filter (\<lambda>k. k \<noteq> ''__init__'') (member_names (function_members ?body)) = [''b'']"
    by code_simp
  have la: "map (\<lambda>k. the (last_member (assign_members ?body) k)) [''a'', ''z''] = [Num (PyInt 1), Num (PyInt 2)]"
    by code_simp
  have ni: "''__init__'' \<notin> fst ` set (function_members ?body)" by simp
  from class_prototype_table[OF t] obtain ctor adefs mdefs where
    c: "''__init__'' \<notin> fst ` set (function_members ?body) \<longrightarrow> ctor = ''function () {}''"
    and a: "map (\<lambda>k. translate insertion_order (the (last_member (assign_members ?body) k)))
              (member_names (assign_members ?body)) = map Inr adefs"
    and o: "?out = ''var '' @ ''C'' @ '' = '' @ ctor @ '';\<newline>'' @ ''C'' @ ''.prototype = { ''
                 @ join '',\<newline>''
                     (map2 table_entry (member_names (assign_members ?body)) adefs
                      @ map2 table_entry
                          (filter (\<lambda>k. k \<noteq> ''__init__'') (member_names (function_members ?body)))
                          mdefs)
                 @ '' }''"
    by blast
  from c ni have ctor: "ctor = ''function () {}''" by blast
  from a have a': "map (translate insertion_order) [Num (PyInt 1), Num (PyInt 2)] = map Inr adefs"
    unfolding an using la by (simp add: last_member_def)
  from o have "?out = ''var '' @ ''C'' @ '' = '' @ ''function () {}'' @ '';\<newline>'' @ ''C'' @ ''.prototype = { ''
             @ join '',\<newline>'' (map2 table_entry [''a'', ''z''] adefs @ map2 table_entry [''b''] mdefs)
             @ '' }''"
    unfolding an mn ctor .
  with a' t show ?thesis by blast
qed

text \<open>
  Claim C1 as stated fails for a class with two members of the same name: the class
  \<^verbatim>\<open>a = 1; a = 2\<close> has two simple-assignment members, and the table has one entry,
  for the second.
\<close>

theorem class_duplicate_member_counterexample:
  "assign_members [Assign [Name ''a''] (Num (PyInt 1)), Assign [Name ''a''] (Num (PyInt 2))]
     = [(''a'', Num (PyInt 1)), (''a'', Num (PyInt 2))]
   \<and> claimed_table_names [Assign [Name ''a''] (Num (PyInt 1)), Assign [Name ''a''] (Num (PyInt 2))]
     = [''a'', ''a'']
   \<and> translate insertion_order
       (ClassDef ''C'' [Assign [Name ''a''] (Num (PyInt 1)), Assign [Name ''a''] (Num (PyInt 2))])
     = Inr ''var C = function () {};\<newline>C.prototype = { 'a': 2 }''"
  by code_simp

end
